theory Spec2Isabelle
  imports Complex_Main "HOL-Library.AList" "HOL-Library.List_Lexorder" "HOL-Library.Char_ord"
begin

section \<open>Floating-point values and two-dimensional arrays\<close>

text \<open>
  The array library's \<open>float64\<close> is modelled by exact reals extended with the two
  infinities and not-a-number. Rounding, overflow and signed zeros are outside the
  model; what is kept is what the program depends on: which values are finite
  (\<open>masked_invalid\<close>), that \<open>nan\<close> is a value of its own which arithmetic
  propagates, and that \<open>!=\<close> holds whenever one side is \<open>nan\<close>.
\<close>

datatype npfloat = Fin real | PInf | NInf | NaN

fun isfinite :: "npfloat \<Rightarrow> bool" where
  "isfinite (Fin _) = True"
| "isfinite _ = False"

fun py_ne :: "npfloat \<Rightarrow> npfloat \<Rightarrow> bool" where
  "py_ne NaN _ = True"
| "py_ne _ NaN = True"
| "py_ne a b = (a \<noteq> b)"

instantiation npfloat :: "{plus, uminus, minus, times}"
begin

fun plus_npfloat :: "npfloat \<Rightarrow> npfloat \<Rightarrow> npfloat" where
  "plus_npfloat (Fin a) (Fin b) = Fin (a + b)"
| "plus_npfloat NaN _ = NaN"
| "plus_npfloat _ NaN = NaN"
| "plus_npfloat PInf NInf = NaN"
| "plus_npfloat NInf PInf = NaN"
| "plus_npfloat PInf _ = PInf"
| "plus_npfloat _ PInf = PInf"
| "plus_npfloat NInf _ = NInf"
| "plus_npfloat _ NInf = NInf"

fun uminus_npfloat :: "npfloat \<Rightarrow> npfloat" where
  "uminus_npfloat (Fin a) = Fin (- a)"
| "uminus_npfloat PInf = NInf"
| "uminus_npfloat NInf = PInf"
| "uminus_npfloat NaN = NaN"

definition minus_npfloat :: "npfloat \<Rightarrow> npfloat \<Rightarrow> npfloat" where
  "minus_npfloat a b = a + (- b)"

fun times_npfloat :: "npfloat \<Rightarrow> npfloat \<Rightarrow> npfloat" where
  "times_npfloat (Fin a) (Fin b) = Fin (a * b)"
| "times_npfloat NaN _ = NaN"
| "times_npfloat _ NaN = NaN"
| "times_npfloat (Fin a) PInf = (if a = 0 then NaN else if 0 < a then PInf else NInf)"
| "times_npfloat (Fin a) NInf = (if a = 0 then NaN else if 0 < a then NInf else PInf)"
| "times_npfloat PInf (Fin b) = (if b = 0 then NaN else if 0 < b then PInf else NInf)"
| "times_npfloat NInf (Fin b) = (if b = 0 then NaN else if 0 < b then NInf else PInf)"
| "times_npfloat PInf PInf = PInf"
| "times_npfloat NInf NInf = PInf"
| "times_npfloat PInf NInf = NInf"
| "times_npfloat NInf PInf = NInf"

instance ..

end

text \<open>\<open>numpy.sum\<close> of a sequence of floats; the empty sum is \<open>0.0\<close>.\<close>

fun np_sum :: "npfloat list \<Rightarrow> npfloat" where
  "np_sum [] = Fin 0"
| "np_sum (x # xs) = x + np_sum xs"

text \<open>
  A two-dimensional array is its shape and its entries. Every array of the program
  is taken to be two-dimensional. Entries outside the shape carry no meaning and no
  operation below reads them.
\<close>

datatype 'a ndarray = Arr (nrows: nat) (ncols: nat) (entry: "nat \<Rightarrow> nat \<Rightarrow> 'a")

definition shape :: "'a ndarray \<Rightarrow> nat \<times> nat" where
  "shape A = (nrows A, ncols A)"

datatype error = AssertionError | KeyError | IndexError | ValueError | TypeError | AttributeError

definition and_then :: "error + 'a \<Rightarrow> ('a \<Rightarrow> error + 'b) \<Rightarrow> error + 'b" where
  "and_then m f = (case m of Inl e \<Rightarrow> Inl e | Inr x \<Rightarrow> f x)"

text \<open>\<open>d[k]\<close> on a dictionary: \<open>KeyError\<close> when the key is absent.\<close>

definition getitem :: "('k \<rightharpoonup> 'v) \<Rightarrow> 'k \<Rightarrow> error + 'v" where
  "getitem d k = (case d k of None \<Rightarrow> Inl KeyError | Some v \<Rightarrow> Inr v)"

text \<open>\<open>A.T\<close>\<close>

definition arr_T :: "'a ndarray \<Rightarrow> 'a ndarray" where
  "arr_T A = Arr (ncols A) (nrows A) (\<lambda>i j. entry A j i)"

text \<open>\<open>scipy.square(A)\<close>\<close>

definition square :: "npfloat ndarray \<Rightarrow> npfloat ndarray" where
  "square A = Arr (nrows A) (ncols A) (\<lambda>i j. entry A i j * entry A i j)"

text \<open>
  An elementwise binary operation on two arrays. Operands of unequal shape are
  reported as a \<open>ValueError\<close>: the library's broadcasting of unequal shapes is not
  modelled, and every theorem below speaks of operands of equal shape.
\<close>

definition elementwise ::
  "('a \<Rightarrow> 'a \<Rightarrow> 'a) \<Rightarrow> 'a ndarray \<Rightarrow> 'a ndarray \<Rightarrow> error + 'a ndarray" where
  "elementwise f A B =
     (if shape A = shape B
      then Inr (Arr (nrows A) (ncols A) (\<lambda>i j. f (entry A i j) (entry B i j)))
      else Inl ValueError)"

text \<open>\<open>c * A\<close> for a scalar \<open>c\<close>\<close>

definition scale :: "npfloat \<Rightarrow> npfloat ndarray \<Rightarrow> npfloat ndarray" where
  "scale c A = Arr (nrows A) (ncols A) (\<lambda>i j. c * entry A i j)"

text \<open>\<open>A.dot(B)\<close>: the matrix product, a \<open>ValueError\<close> when the inner dimensions differ.\<close>

definition dot :: "npfloat ndarray \<Rightarrow> npfloat ndarray \<Rightarrow> error + npfloat ndarray" where
  "dot A B =
     (if ncols A = nrows B
      then Inr (Arr (nrows A) (ncols B)
                 (\<lambda>i j. np_sum (map (\<lambda>k. entry A i k * entry B k j) [0..<ncols A])))
      else Inl ValueError)"

text \<open>\<open>A.sum()\<close>: the sum of all entries.\<close>

definition sum_all :: "npfloat ndarray \<Rightarrow> npfloat" where
  "sum_all A = np_sum (concat (map (\<lambda>i. map (\<lambda>j. entry A i j) [0..<ncols A]) [0..<nrows A]))"

text \<open>
  \<open>A[M] = v\<close> for a boolean array \<open>M\<close>: an \<open>IndexError\<close> unless \<open>M\<close> has the shape
  of \<open>A\<close>.
\<close>

definition setitem_mask :: "'a ndarray \<Rightarrow> bool ndarray \<Rightarrow> 'a \<Rightarrow> error + 'a ndarray" where
  "setitem_mask A M v =
     (if shape M = shape A
      then Inr (Arr (nrows A) (ncols A) (\<lambda>i j. if entry M i j then v else entry A i j))
      else Inl IndexError)"

text \<open>\<open>A[ix, :]\<close> for a list of row indices: an \<open>IndexError\<close> when one is out of range.\<close>

definition take_rows :: "'a ndarray \<Rightarrow> nat list \<Rightarrow> error + 'a ndarray" where
  "take_rows A ix =
     (if list_all (\<lambda>r. r < nrows A) ix
      then Inr (Arr (length ix) (ncols A) (\<lambda>i j. entry A (ix ! i) j))
      else Inl IndexError)"

text \<open>\<open>M.sum(axis=0)\<close> and \<open>M.sum(axis=1)\<close> of a boolean array: the number of true
  entries of each column, and of each row.\<close>

definition sum_axis0 :: "bool ndarray \<Rightarrow> int list" where
  "sum_axis0 M = map (\<lambda>j. int (length (filter (\<lambda>i. entry M i j) [0..<nrows M]))) [0..<ncols M]"

definition sum_axis1 :: "bool ndarray \<Rightarrow> int list" where
  "sum_axis1 M = map (\<lambda>i. int (length (filter (\<lambda>j. entry M i j) [0..<ncols M]))) [0..<nrows M]"

section \<open>Masked arrays\<close>

text \<open>
  A value is a plain array or a masked array (data, mask, fill value). A masked
  array that carries no mask (\<open>nomask\<close>) is represented with the all-false mask of
  its shape, and so is the mask \<open>getmask\<close> reports for a plain array.
\<close>

datatype np_value =
  NdArray "npfloat ndarray"
| MaskedArray (ma_data: "npfloat ndarray") (ma_mask: "bool ndarray") (ma_fill: npfloat)

definition default_fill_value :: npfloat where
  "default_fill_value = Fin (10 ^ 20)"

definition masked_invalid :: "npfloat ndarray \<Rightarrow> np_value" where
  "masked_invalid A =
     MaskedArray A (Arr (nrows A) (ncols A) (\<lambda>i j. \<not> isfinite (entry A i j))) default_fill_value"

fun set_fill_value :: "np_value \<Rightarrow> npfloat \<Rightarrow> np_value" where
  "set_fill_value (MaskedArray A M _) v = MaskedArray A M v"
| "set_fill_value (NdArray A) v = NdArray A"

fun getdata :: "np_value \<Rightarrow> npfloat ndarray" where
  "getdata (NdArray A) = A"
| "getdata (MaskedArray A _ _) = A"

fun getmask :: "np_value \<Rightarrow> bool ndarray" where
  "getmask (NdArray A) = Arr (nrows A) (ncols A) (\<lambda>i j. False)"
| "getmask (MaskedArray _ M _) = M"

section \<open>The observation node (\<open>Y_Node\<close>)\<close>

text \<open>
  \<open>N\<close>, \<open>D\<close> and \<open>likconst\<close> exist only once \<open>precompute\<close> has set them: they are
  optional fields, and reading an unset one is an \<open>AttributeError\<close>. The Markov
  blanket maps the name of a sibling node to what its \<open>getExpectations()\<close> returns,
  a dictionary of named moments.
\<close>

record Y_Node =
  dim :: "int \<times> int"
  node_value :: np_value
  mini_batch :: "np_value option"
  N :: "int list option"
  D :: "int list option"
  likconst :: "npfloat option"
  markov_blanket :: "string \<rightharpoonup> (string \<rightharpoonup> npfloat ndarray)"

definition mask :: "Y_Node \<Rightarrow> Y_Node" where
  "mask self =
     (let self1 = (case node_value self of
                     NdArray A \<Rightarrow> self\<lparr>node_value := masked_invalid A\<rparr>
                   | MaskedArray _ _ _ \<Rightarrow> self)
      in self1\<lparr>node_value := set_fill_value (node_value self1) (Fin 0)\<rparr>)"

definition Y_Node_init :: "int \<times> int \<Rightarrow> np_value \<Rightarrow> Y_Node" where
  "Y_Node_init dm v =
     (mask \<lparr>dim = dm, node_value = v, mini_batch = None, N = None, D = None,
            likconst = None, markov_blanket = Map.empty\<rparr>)\<lparr>mini_batch := None\<rparr>"

definition getMask :: "Y_Node \<Rightarrow> bool ndarray" where
  "getMask self =
     (case mini_batch self of
        None \<Rightarrow> getmask (node_value self)
      | Some b \<Rightarrow> getmask b)"

text \<open>
  \<open>precompute\<close> assigns \<open>N\<close> and \<open>D\<close>, then reads \<open>options['gpu_mode']\<close> into the
  module-level flag (a \<open>TypeError\<close> for the default \<open>options=None\<close>, a \<open>KeyError\<close>
  for a missing key), then assigns \<open>likconst\<close>. The result is the outcome, the node
  as the call leaves it, and the flag.
\<close>

definition precompute ::
  "Y_Node \<Rightarrow> (string \<rightharpoonup> bool) option \<Rightarrow> bool \<Rightarrow> (error + unit) \<times> Y_Node \<times> bool" where
  "precompute self options gpu_mode =
     (let self1 = self\<lparr>N := Some (map (\<lambda>c. fst (dim self) - c) (sum_axis0 (getMask self)))\<rparr>;
          self2 = self1\<lparr>D := Some (map (\<lambda>c. snd (dim self1) - c) (sum_axis1 (getMask self1)))\<rparr>
      in case options of
           None \<Rightarrow> (Inl TypeError, self2, gpu_mode)
         | Some opts \<Rightarrow>
             (case opts ''gpu_mode'' of
                None \<Rightarrow> (Inl KeyError, self2, gpu_mode)
              | Some g \<Rightarrow>
                  (Inr (),
                   self2\<lparr>likconst :=
                     Some (Fin (- 0.5 * real_of_int (sum_list (the (N self2))) * ln (2 * pi)))\<rparr>,
                   g)))"

text \<open>The number of missing entries of a row and of a column, as the specification
  counts them.\<close>

definition missing_in_row :: "bool ndarray \<Rightarrow> nat \<Rightarrow> int" where
  "missing_in_row M i = int (card {j. j < ncols M \<and> entry M i j})"

definition missing_in_col :: "bool ndarray \<Rightarrow> nat \<Rightarrow> int" where
  "missing_in_col M j = int (card {i. i < nrows M \<and> entry M i j})"

text \<open>
  Modelled from the spec: \<open>getExpectation\<close> of the constant node class, which these
  sources inherit from but do not contain. The specification has it return the primary
  moment of the node; for an observation node that is its stored (masked) value.
\<close>

definition getExpectation :: "Y_Node \<Rightarrow> np_value" where
  "getExpectation self = node_value self"

text \<open>
  The residual surrogate \<open>tmp\<close> of \<open>calculateELBO\<close>, in the order the source evaluates
  it: \<open>ZW = Z.dot(W)\<close>, then
  \<open>square(Y) + ZZ.dot(WW) - dot(square(Z), square(W)) + square(ZW) - 2*ZW*Y\<close>.
  The arithmetic on the masked array \<open>Y\<close> is done on its data: what it leaves
  at masked positions is overwritten before it is used.
\<close>

definition residual ::
  "npfloat ndarray \<Rightarrow> npfloat ndarray \<Rightarrow> npfloat ndarray \<Rightarrow> npfloat ndarray \<Rightarrow>
   npfloat ndarray \<Rightarrow> error + npfloat ndarray" where
  "residual Y Z ZZ W WW =
     and_then (dot Z W) (\<lambda>ZW.
     and_then (dot ZZ WW) (\<lambda>ZZWW.
     and_then (elementwise (+) (square Y) ZZWW) (\<lambda>t1.
     and_then (dot (square Z) (square W)) (\<lambda>Z2W2.
     and_then (elementwise (-) t1 Z2W2) (\<lambda>t2.
     and_then (elementwise (+) t2 (square ZW)) (\<lambda>t3.
     and_then (elementwise (*) (scale (Fin 2) ZW) Y) (\<lambda>ZWY.
     elementwise (-) t3 ZWY)))))))"

text \<open>
  \<open>calculateELBO\<close>. A node missing from the Markov blanket, or a moment missing from
  its expectations, is a \<open>KeyError\<close>; an unset \<open>likconst\<close> an \<open>AttributeError\<close>. The
  mask is the one of the stored value, also when a mini-batch is active.
\<close>

definition calculateELBO :: "Y_Node \<Rightarrow> error + npfloat" where
  "calculateELBO self =
     (let Y = getdata (getExpectation self) in
      and_then (getitem (markov_blanket self) ''Tau'') (\<lambda>Tau.
      and_then (getitem (markov_blanket self) ''W'') (\<lambda>Wtmp.
      and_then (getitem (markov_blanket self) ''Z'') (\<lambda>Ztmp.
      and_then (getitem Wtmp ''E'') (\<lambda>WE.
      and_then (getitem Wtmp ''E2'') (\<lambda>WE2.
      let W = arr_T WE; WW = arr_T WE2 in
      and_then (getitem Ztmp ''E'') (\<lambda>Z.
      and_then (getitem Ztmp ''E2'') (\<lambda>ZZ.
      let msk = getmask (node_value self) in
      and_then (getitem Tau ''lnE'') (\<lambda>lnE.
      and_then (setitem_mask lnE msk (Fin 0)) (\<lambda>lnE'.
      and_then (residual Y Z ZZ W WW) (\<lambda>tmp.
      and_then (setitem_mask tmp msk (Fin 0)) (\<lambda>tmp'.
      and_then (case likconst self of None \<Rightarrow> Inl AttributeError | Some c \<Rightarrow> Inr c) (\<lambda>c.
      and_then (getitem Tau ''E'') (\<lambda>E.
      and_then (elementwise (*) E tmp') (\<lambda>prod.
      Inr (c + Fin 0.5 * sum_all lnE' - sum_all prod))))))))))))))))"

text \<open>
  The value the specification gives, entry by entry:
  \<open>likconst + 0.5 * \<Sum> lnE - \<Sum> E * tmp\<close>, both sums over all positions, with
  \<open>lnE\<close> and \<open>tmp\<close> zero at masked positions and, at position \<open>(i, j)\<close>,
  \<open>tmp = Y\<^sup>2 + \<Sum>\<^sub>l ZZ\<^sub>i\<^sub>l WW\<^sub>l\<^sub>j - \<Sum>\<^sub>l Z\<^sub>i\<^sub>l\<^sup>2 W\<^sub>l\<^sub>j\<^sup>2 + (\<Sum>\<^sub>l Z\<^sub>i\<^sub>l W\<^sub>l\<^sub>j)\<^sup>2 - 2 (\<Sum>\<^sub>l Z\<^sub>i\<^sub>l W\<^sub>l\<^sub>j) Y\<close>,
  where \<open>W\<close> and \<open>WW\<close> are the transposed moments of the loading node:
  \<open>W\<^sub>l\<^sub>j = WE\<^sub>j\<^sub>l\<close> and \<open>WW\<^sub>l\<^sub>j = WE2\<^sub>j\<^sub>l\<close>.
\<close>

definition elbo_formula ::
  "npfloat \<Rightarrow> bool ndarray \<Rightarrow> npfloat ndarray \<Rightarrow> npfloat ndarray \<Rightarrow> npfloat ndarray \<Rightarrow>
   npfloat ndarray \<Rightarrow> npfloat ndarray \<Rightarrow> npfloat ndarray \<Rightarrow> npfloat ndarray \<Rightarrow> npfloat" where
  "elbo_formula c M Y Z ZZ WE WE2 lnTau Tau =
     (let n = nrows Y; d = ncols Y; k = ncols Z;
          zw = (\<lambda>i j. np_sum (map (\<lambda>l. entry Z i l * entry WE j l) [0..<k]));
          tmp = (\<lambda>i j.
                  entry Y i j * entry Y i j
                  + np_sum (map (\<lambda>l. entry ZZ i l * entry WE2 j l) [0..<k])
                  - np_sum (map (\<lambda>l. (entry Z i l * entry Z i l) * (entry WE j l * entry WE j l)) [0..<k])
                  + zw i j * zw i j
                  - Fin 2 * zw i j * entry Y i j)
      in c
         + Fin 0.5 * np_sum (concat (map (\<lambda>i. map (\<lambda>j. if entry M i j then Fin 0 else entry lnTau i j) [0..<d]) [0..<n]))
         - np_sum (concat (map (\<lambda>i. map (\<lambda>j. entry Tau i j * (if entry M i j then Fin 0 else tmp i j)) [0..<d]) [0..<n])))"

text \<open>Two arrays of one shape that agree at every position the mask leaves visible.\<close>

definition agree_off_mask :: "bool ndarray \<Rightarrow> npfloat ndarray \<Rightarrow> npfloat ndarray \<Rightarrow> bool" where
  "agree_off_mask M A B \<longleftrightarrow>
     shape A = shape B \<and>
     (\<forall>i < nrows A. \<forall>j < ncols A. \<not> entry M i j \<longrightarrow> entry A i j = entry B i j)"

section \<open>Example nodes\<close>

text \<open>A node of three samples and two features whose first entry is missing.\<close>

definition Y_example :: Y_Node where
  "Y_example = Y_Node_init (3, 2)
     (NdArray (Arr 3 2 (\<lambda>i j. if i = 0 \<and> j = 0 then NaN else Fin 1)))"

definition options_example :: "(string \<rightharpoonup> bool) option" where
  "options_example = Some [''gpu_mode'' \<mapsto> False]"

text \<open>
  A node of two samples, one feature and one factor, whose second sample is missing,
  with the expectations of its Markov blanket.
\<close>

definition Tau_example :: "string \<rightharpoonup> npfloat ndarray" where
  "Tau_example = [''E'' \<mapsto> Arr 2 1 (\<lambda>i j. Fin 1),
                  ''lnE'' \<mapsto> Arr 2 1 (\<lambda>i j. if i = 0 then Fin 4 else Fin 5)]"

definition W_example :: "string \<rightharpoonup> npfloat ndarray" where
  "W_example = [''E'' \<mapsto> Arr 1 1 (\<lambda>i j. Fin 3), ''E2'' \<mapsto> Arr 1 1 (\<lambda>i j. Fin 10)]"

definition Z_example :: "string \<rightharpoonup> npfloat ndarray" where
  "Z_example = [''E'' \<mapsto> Arr 2 1 (\<lambda>i j. Fin 1), ''E2'' \<mapsto> Arr 2 1 (\<lambda>i j. Fin 2)]"

definition elbo_example :: Y_Node where
  "elbo_example =
     \<lparr>dim = (2, 1),
      node_value = MaskedArray (Arr 2 1 (\<lambda>i j. if i = 0 then Fin 2 else NaN))
                               (Arr 2 1 (\<lambda>i j. i = 1)) (Fin 0),
      mini_batch = None, N = Some [1], D = Some [1, 0], likconst = Some (Fin 7),
      markov_blanket = [''Tau'' \<mapsto> Tau_example, ''W'' \<mapsto> W_example, ''Z'' \<mapsto> Z_example]\<rparr>"

section \<open>The serializer (\<open>saveModel\<close>)\<close>

subsection \<open>The world the serializer works in\<close>

text \<open>
  A container file is a tree of named groups and datasets, held here as a map from
  paths to objects. A dataset of expectations is a float matrix with its compression
  level; the training options are one float vector with the \<open>names\<close> attribute.
\<close>

datatype h5obj =
  H5Group
| H5Matrix "npfloat ndarray" nat
| H5Table "npfloat list" "string list"

type_synonym h5file = "string list \<rightharpoonup> h5obj"

text \<open>
  A value of the training options: a number (what the array library coerces to a
  float), a value it cannot coerce (a non-numeric string, say), or a nested
  dictionary. A dictionary is an association list in insertion order;
  \<open>AList.update\<close> overwrites in place or appends, as assignment to a Python
  dictionary does.
\<close>

datatype optval = Num npfloat | NonNumeric | Dict "(string \<times> optval) list"

text \<open>
  The mutable objects the program shares by reference live in a store: the files of
  the file system by name, the arrays and the dictionaries by address.
\<close>

record world =
  files :: "string \<rightharpoonup> h5file"
  arrays :: "nat \<Rightarrow> npfloat ndarray"
  dicts :: "nat \<Rightarrow> (string \<times> optval) list"

type_synonym 'a action = "world \<Rightarrow> (error + 'a) \<times> world"

definition bind_a :: "'a action \<Rightarrow> ('a \<Rightarrow> 'b action) \<Rightarrow> 'b action" where
  "bind_a m k w = (case m w of (Inl e, w') \<Rightarrow> (Inl e, w') | (Inr x, w') \<Rightarrow> k x w')"

definition pure_a :: "error + 'a \<Rightarrow> 'a action" where
  "pure_a r w = (r, w)"

text \<open>A \<open>for\<close> loop: the body runs on each element in turn, and the first error ends it.\<close>

fun foreach :: "'a list \<Rightarrow> ('a \<Rightarrow> unit action) \<Rightarrow> unit action" where
  "foreach [] f = pure_a (Inr ())"
| "foreach (x # xs) f = bind_a (f x) (\<lambda>_. foreach xs f)"

text \<open>\<open>xs[i]\<close> for an index from a \<open>range\<close>: an \<open>IndexError\<close> past the end.\<close>

definition nth_err :: "'a list \<Rightarrow> nat \<Rightarrow> error + 'a" where
  "nth_err xs i = (if i < length xs then Inr (xs ! i) else Inl IndexError)"

definition read_array :: "nat \<Rightarrow> npfloat ndarray action" where
  "read_array a w = (Inr (arrays w a), w)"

text \<open>
  A method of a node taken as a value without calling it: \<open>x.mask\<close> for a \<open>Y_Node\<close>
  \<open>x\<close> is the method \<open>mask\<close> bound to \<open>x\<close>. The class defines \<open>mask\<close> as a method and
  assigns no attribute of that name (the mask itself is served by \<open>getMask\<close>).
\<close>

datatype bound_method = Y_Node_mask Y_Node

text \<open>
  \<open>A[f] = v\<close> on the array object at address \<open>a\<close>, where \<open>f\<close> is a method object: the
  array library takes integers, slices and integer or boolean arrays as indices and
  raises an \<open>IndexError\<close> for anything else. Nothing is written.
\<close>

definition setitem_method :: "nat \<Rightarrow> bound_method \<Rightarrow> npfloat \<Rightarrow> unit action" where
  "setitem_method a f v w = (Inl IndexError, w)"

text \<open>
  \<open>create_group\<close> and \<open>create_dataset\<close> through the open container \<open>f\<close>: a
  \<open>ValueError\<close> when the name is taken already (or the container is not there).
  Names are taken as single path components.
\<close>

definition create :: "string \<Rightarrow> string list \<Rightarrow> h5obj \<Rightarrow> unit action" where
  "create f p obj w =
     (case files w f of
        None \<Rightarrow> (Inl ValueError, w)
      | Some t \<Rightarrow>
          (if t p \<noteq> None then (Inl ValueError, w)
           else (Inr (), w\<lparr>files := (files w)(f \<mapsto> t(p \<mapsto> obj))\<rparr>)))"

subsection \<open>The trained model\<close>

text \<open>
  A node of the registry, as the serializer sees it: whether it is a
  \<open>Multiview_Node\<close>, its number of views \<open>M\<close>, and what \<open>getExpectation()\<close> returns,
  the array objects themselves (by address): one per view, or one.

  Modelled from the spec: the \<open>Multiview_Node\<close> class and the model are not part of
  these sources. The model exposes \<open>trained\<close> and \<open>getNodes()\<close>, a dictionary from node
  names to nodes. \<open>Y_views\<close> is \<open>getNodes()["Y"].getNodes()\<close>, the view objects of the
  observation node; they are \<open>Y_Node\<close>s, the class of these sources.
\<close>

datatype node = Multiview_Node nat "nat list" | Single_Node nat

record trained_model =
  trained :: bool
  nodes :: "(string \<times> node) list"
  Y_views :: "Y_Node list"

text \<open>
  The serializer object. \<open>hdf5\<close> is the open container, by the name of its file;
  \<open>masks\<close> is the field \<open>self.mask\<close>, the list \<open>[x.mask for x in Y_views]\<close>: one
  bound method per view, not one mask array per view. \<open>train_opts\<close> is the caller's
  dictionary object, by address. The fields the methods below do not read
  (\<open>model_opts\<close>, the sample and feature names) are left out.
\<close>

record saveModel =
  model :: trained_model
  hdf5 :: string
  compression_level :: nat
  data :: "npfloat ndarray list"
  masks :: "bound_method list"
  samples_groups :: "string list"
  train_opts :: nat
  views_names :: "string list"
  groups_names :: "string list"

text \<open>
  \<open>__init__\<close>. The two assertions are \<open>AssertionError\<close>s; between them the file is
  opened in mode \<open>'w'\<close>, which creates it or truncates it (taken to succeed), the
  list \<open>self.mask\<close> is built (\<open>KeyError\<close> without a \<open>Y\<close> node) and \<open>data[0]\<close> is read
  (\<open>IndexError\<close> for no data). \<open>numpy.unique\<close> gives the sorted distinct labels.
\<close>

definition saveModel_init ::
  "trained_model \<Rightarrow> string \<Rightarrow> npfloat ndarray list \<Rightarrow> string list \<Rightarrow> nat \<Rightarrow>
   string list \<Rightarrow> nat \<Rightarrow> saveModel action" where
  "saveModel_init mdl outfile dat groups opts vnames level w =
     (if \<not> trained mdl then (Inl AssertionError, w)
      else
        let w1 = w\<lparr>files := (files w)(outfile \<mapsto> Map.empty)\<rparr> in
        case map_of (nodes mdl) ''Y'' of
          None \<Rightarrow> (Inl KeyError, w1)
        | Some _ \<Rightarrow>
            (case dat of
               [] \<Rightarrow> (Inl IndexError, w1)
             | d0 # _ \<Rightarrow>
                 if length groups \<noteq> nrows d0 then (Inl AssertionError, w1)
                 else
                   (Inr \<lparr>model = mdl, hdf5 = outfile, compression_level = level,
                         data = dat, masks = map Y_Node_mask (Y_views mdl), samples_groups = groups,
                         train_opts = opts, views_names = vnames,
                         groups_names = sort (remdups groups)\<rparr>,
                    w1)))"

subsection \<open>\<open>saveExpectations\<close>\<close>

definition whitelist :: "string list" where
  "whitelist = [''Z'', ''W'', ''Y'', ''Tau'', ''AlphaW'', ''AlphaZ'', ''ThetaZ'', ''ThetaW'']"

definition multigroup_nodes :: "string list" where
  "multigroup_nodes = [''Y'', ''Tau'', ''Z'']"

text \<open>The \<open>nodes\<close> argument: a single string, or a list or tuple of names.\<close>

datatype nodes_arg = Str string | Names "string list"

text \<open>
  The names to export. A string is \<open>"all"\<close> (every registered name) or one name,
  taken as it is; only a list or tuple is checked against the whitelist.
\<close>

definition requested :: "(string \<times> node) list \<Rightarrow> nodes_arg \<Rightarrow> error + string list" where
  "requested nodes_dic arg =
     (case arg of
        Str n \<Rightarrow> Inr (if n = ''all'' then map fst nodes_dic else [n])
      | Names ns \<Rightarrow> if set ns \<subseteq> set whitelist then Inr ns else Inl AssertionError)"

text \<open>
  \<open>{x: nodes_dic[x] for x in nodes if x in nodes_dic}\<close>: the registered ones among
  the names, each once, in the order of their first occurrence.
\<close>

definition restrict_nodes :: "(string \<times> node) list \<Rightarrow> string list \<Rightarrow> (string \<times> node) list" where
  "restrict_nodes nodes_dic ns =
     List.map_filter (\<lambda>x. map_option (Pair x) (map_of nodes_dic x)) (rev (remdups (rev ns)))"

text \<open>\<open>numpy.where(numpy.array(samples_groups) == g)[0]\<close>\<close>

definition samp_indices :: "string list \<Rightarrow> string \<Rightarrow> nat list" where
  "samp_indices groups g = filter (\<lambda>i. groups ! i = g) [0..<length groups]"

text \<open>
  A multi-view, multi-group node, view \<open>m\<close>, group \<open>g\<close>: the body of the innermost
  loop. Its first statement, \<open>exp[m][self.mask[m]] = np.nan\<close>, indexes the array with
  the element of \<open>self.mask\<close>, a bound method: it raises, and the statements after it
  are never reached.
\<close>

definition save_view_group ::
  "saveModel \<Rightarrow> string \<Rightarrow> string \<Rightarrow> nat list \<Rightarrow> nat \<Rightarrow> string \<Rightarrow> unit action" where
  "save_view_group self n vname exps m g =
     bind_a (pure_a (nth_err exps m)) (\<lambda>a.
     bind_a (pure_a (nth_err (masks self) m)) (\<lambda>f.
     bind_a (setitem_method a f NaN) (\<lambda>_.
     bind_a (read_array a) (\<lambda>A.
     bind_a (pure_a (take_rows A (samp_indices (samples_groups self) g))) (\<lambda>d.
     create (hdf5 self) [''expectations'', n, vname, g]
       (H5Matrix d (compression_level self)))))))"

text \<open>A multi-view node, view \<open>m\<close>.\<close>

definition save_view :: "saveModel \<Rightarrow> string \<Rightarrow> nat list \<Rightarrow> nat \<Rightarrow> unit action" where
  "save_view self n exps m =
     (if n \<in> set multigroup_nodes then
        bind_a (pure_a (nth_err (views_names self) m)) (\<lambda>vname.
        bind_a (create (hdf5 self) [''expectations'', n, vname] H5Group) (\<lambda>_.
        foreach (groups_names self) (save_view_group self n vname exps m)))
      else
        bind_a (pure_a (nth_err (views_names self) m)) (\<lambda>vname.
        bind_a (pure_a (nth_err exps m)) (\<lambda>a.
        bind_a (read_array a) (\<lambda>A.
        create (hdf5 self) [''expectations'', n, vname]
          (H5Matrix (arr_T A) (compression_level self))))))"

text \<open>A single-view, multi-group node, group \<open>g\<close>.\<close>

definition save_group :: "saveModel \<Rightarrow> string \<Rightarrow> nat \<Rightarrow> string \<Rightarrow> unit action" where
  "save_group self n a g =
     bind_a (read_array a) (\<lambda>A.
     bind_a (pure_a (take_rows A (samp_indices (samples_groups self) g))) (\<lambda>d.
     create (hdf5 self) [''expectations'', n, g]
       (H5Matrix (arr_T d) (compression_level self))))"

text \<open>One node of the selection: the body of the loop over \<open>nodes_dic\<close>.\<close>

definition save_node :: "saveModel \<Rightarrow> string \<times> node \<Rightarrow> unit action" where
  "save_node self = (\<lambda>(n, nd).
     bind_a (create (hdf5 self) [''expectations'', n] H5Group) (\<lambda>_.
     case nd of
       Multiview_Node M exps \<Rightarrow> foreach [0..<M] (save_view self n exps)
     | Single_Node a \<Rightarrow>
         if n \<in> set multigroup_nodes then foreach (groups_names self) (save_group self n a)
         else
           bind_a (read_array a) (\<lambda>A.
           create (hdf5 self) [''expectations'', n, ''E'']
             (H5Matrix (arr_T A) (compression_level self)))))"

definition saveExpectations :: "saveModel \<Rightarrow> nodes_arg \<Rightarrow> unit action" where
  "saveExpectations self arg =
     bind_a (pure_a (requested (nodes (model self)) arg)) (\<lambda>ns.
     bind_a (create (hdf5 self) [''expectations''] H5Group) (\<lambda>_.
     foreach (restrict_nodes (nodes (model self)) ns) (save_node self)))"

subsection \<open>\<open>saveTrainOptions\<close>\<close>

text \<open>
  One step of the loop over \<open>opts.copy().items()\<close>: a nested dictionary is replaced
  by its entries under the keys \<open>str(k) + "_" + str(k1)\<close>, then its own key is
  popped. The key is in \<open>opts\<close> when it is popped: it was in the copy, and the steps
  before it pop other keys only.
\<close>

definition flatten_entry ::
  "(string \<times> optval) list \<Rightarrow> string \<times> optval \<Rightarrow> (string \<times> optval) list" where
  "flatten_entry opts = (\<lambda>(k, v).
     case v of
       Dict kv \<Rightarrow> AList.delete k (foldl (\<lambda>acc (k1, v1). AList.update (k @ ''_'' @ k1) v1 acc) opts kv)
     | _ \<Rightarrow> opts)"

definition flatten_opts :: "(string \<times> optval) list \<Rightarrow> (string \<times> optval) list" where
  "flatten_opts opts =
     (let opts1 = foldl flatten_entry opts opts;
          opts2 = (if ''schedule'' \<in> set (map fst opts1) then AList.delete ''schedule'' opts1 else opts1)
      in if ''convergence_mode'' \<in> set (map fst opts2)
         then AList.delete ''convergence_mode'' opts2 else opts2)"

text \<open>\<open>numpy.array(values, dtype=float)\<close>: the first value that is not a number ends
  it, a nested dictionary with a \<open>TypeError\<close>, any other with a \<open>ValueError\<close>.\<close>

fun to_floats :: "optval list \<Rightarrow> error + npfloat list" where
  "to_floats [] = Inr []"
| "to_floats (Num x # vs) = and_then (to_floats vs) (\<lambda>xs. Inr (x # xs))"
| "to_floats (NonNumeric # vs) = Inl ValueError"
| "to_floats (Dict _ # vs) = Inl TypeError"

text \<open>
  \<open>saveTrainOptions\<close> works on \<open>self.train_opts\<close> itself, the dictionary object the
  constructor was given: the store holds the flattened dictionary afterwards,
  whatever the outcome of the write.
\<close>

definition saveTrainOptions :: "saveModel \<Rightarrow> unit action" where
  "saveTrainOptions self w =
     (let opts = flatten_opts (dicts w (train_opts self));
          w1 = w\<lparr>dicts := (dicts w)(train_opts self := opts)\<rparr>
      in bind_a (pure_a (to_floats (map snd opts))) (\<lambda>vals.
         create (hdf5 self) [''training_opts''] (H5Table vals (map fst opts))) w1)"

subsection \<open>An example model\<close>

text \<open>
  Two samples in the groups \<open>a\<close> and \<open>b\<close>, one view of two features, one factor.
  \<open>Z\<close> is single-view, \<open>W\<close>, \<open>Y\<close> and \<open>Tau\<close> are multi-view; \<open>Sigma\<close> is a
  registered node whose name is not among the recognised ones. The observation at
  position \<open>(0, 1)\<close> is missing; the one view of \<open>Y\<close> is the \<open>Y_Node\<close> built from the
  observations. The arrays live at the addresses 0 to 4.
\<close>

definition example_arrays :: "nat \<Rightarrow> npfloat ndarray" where
  "example_arrays a =
     (if a = 0 then Arr 2 1 (\<lambda>i j. Fin (real i + 1))
      else if a = 1 then Arr 2 1 (\<lambda>i j. Fin (real i + 5))
      else if a = 2 then Arr 2 2 (\<lambda>i j. if i = 0 \<and> j = 1 then NaN else Fin (real (10 * i + j)))
      else if a = 3 then Arr 2 2 (\<lambda>i j. Fin 1)
      else Arr 1 1 (\<lambda>i j. Fin 0))"

definition example_model :: trained_model where
  "example_model =
     \<lparr>trained = True,
      nodes = [(''Z'', Single_Node 0), (''W'', Multiview_Node 1 [1]),
               (''Y'', Multiview_Node 1 [2]), (''Tau'', Multiview_Node 1 [3]),
               (''Sigma'', Single_Node 4)],
      Y_views = [Y_Node_init (2, 2) (NdArray (example_arrays 2))]\<rparr>"

definition example_world :: world where
  "example_world = \<lparr>files = Map.empty, arrays = example_arrays, dicts = (\<lambda>d. [])\<rparr>"

definition example_saver :: saveModel where
  "example_saver =
     \<lparr>model = example_model, hdf5 = ''model.hdf5'', compression_level = 9,
      data = [example_arrays 2], masks = map Y_Node_mask (Y_views example_model),
      samples_groups = [''a'', ''b''], train_opts = 0, views_names = [''view''],
      groups_names = [''a'', ''b'']\<rparr>"

text \<open>The world once the constructor has opened the container.\<close>

definition example_opened :: world where
  "example_opened = example_world\<lparr>files := [''model.hdf5'' \<mapsto> Map.empty]\<rparr>"

subsection \<open>What the specification says of the training options\<close>

text \<open>
  The name a nested entry is persisted under, the nested entries
  \<open>{parent: {child: v}}\<close> of a dictionary as triples, the keys that hold a nested
  dictionary, and the flattened entries.
\<close>

definition flat_name :: "string \<Rightarrow> string \<Rightarrow> string" where
  "flat_name p c = p @ ''_'' @ c"

definition nested_entries :: "(string \<times> optval) list \<Rightarrow> (string \<times> string \<times> optval) list" where
  "nested_entries opts =
     concat (map (\<lambda>(p, v). case v of Dict kv \<Rightarrow> map (\<lambda>(c, x). (p, c, x)) kv | _ \<Rightarrow> []) opts)"

definition parent_keys :: "(string \<times> optval) list \<Rightarrow> string list" where
  "parent_keys opts = concat (map (\<lambda>(p, v). case v of Dict kv \<Rightarrow> [p] | _ \<Rightarrow> []) opts)"

definition flat_items :: "(string \<times> optval) list \<Rightarrow> (string \<times> optval) list" where
  "flat_items opts = map (\<lambda>(p, c, x). (flat_name p c, x)) (nested_entries opts)"

text \<open>
  Options the numeric table can hold: every value is a number or a dictionary of
  numbers, but for \<open>schedule\<close> and \<open>convergence_mode\<close>, which may be non-numeric.
\<close>

definition numeric_options :: "(string \<times> optval) list \<Rightarrow> bool" where
  "numeric_options opts \<longleftrightarrow>
     (\<forall>(k, v) \<in> set opts.
        (\<exists>x. v = Num x)
        \<or> (\<exists>kv. v = Dict kv \<and> (\<forall>(c, u) \<in> set kv. \<exists>x. u = Num x))
        \<or> (v = NonNumeric \<and> (k = ''schedule'' \<or> k = ''convergence_mode'')))"

subsection \<open>Example training options\<close>

text \<open>
  The options of the specification's example, a dictionary whose flattened name is
  \<open>convergence_mode\<close>, and one whose flattened name \<open>a_b\<close> is the key of a nested
  dictionary. \<open>options_world\<close> puts a dictionary at address 0, where the example
  serializer's \<open>train_opts\<close> points.
\<close>

definition train_opts_example :: "(string \<times> optval) list" where
  "train_opts_example =
     [(''stochastic'', Dict [(''batch_size'', Num (Fin 50)), (''lr'', Num (Fin 0.1))]),
      (''maxiter'', Num (Fin 100)),
      (''schedule'', NonNumeric),
      (''convergence_mode'', NonNumeric)]"

definition options_world :: "(string \<times> optval) list \<Rightarrow> world" where
  "options_world opts = example_opened\<lparr>dicts := (\<lambda>d. if d = 0 then opts else [])\<rparr>"

definition colliding_opts_example :: "(string \<times> optval) list" where
  "colliding_opts_example = [(''convergence'', Dict [(''mode'', Num (Fin 3))])]"

definition reappearing_parent_example :: "(string \<times> optval) list" where
  "reappearing_parent_example =
     [(''a_b'', Dict [(''c'', Num (Fin 1))]), (''a'', Dict [(''b'', Num (Fin 5))])]"

subsection \<open>How \<open>saveExpectations\<close> changes the world\<close>

text \<open>
  What \<open>saveExpectations\<close> can do to the world: it adds objects to open containers
  under names that are free, and it leaves every array and every dictionary as it
  is. An action preserves this when it takes every world to one related to it in
  this way, and it returns \<open>x\<close> when some run of it ends with that value.
\<close>

definition evolves :: "world \<Rightarrow> world \<Rightarrow> bool" where
  "evolves w w' \<longleftrightarrow>
     arrays w' = arrays w \<and> dicts w' = dicts w \<and>
     (\<forall>f t. files w f = Some t \<longrightarrow> (\<exists>t'. files w' f = Some t' \<and> t \<subseteq>\<^sub>m t'))"

definition preserves :: "'a action \<Rightarrow> bool" where
  "preserves act \<longleftrightarrow> (\<forall>w. evolves w (snd (act w)))"

definition returns :: "'a action \<Rightarrow> 'a \<Rightarrow> bool" where
  "returns act x \<longleftrightarrow> (\<exists>w w'. act w = (Inr x, w'))"


section \<open>Auxiliary facts\<close>

lemma upt_3: "[0..<3] = [0, 1, 2]" by (simp add: upt_rec)
lemma upt_2: "[0..<2] = [0, 1]" by (simp add: upt_rec)

lemma upt_1: "[0..<1] = [0]" by (simp add: upt_rec)

lemma and_then_Inr [simp]: "and_then (Inr x) f = f x"
  by (simp add: and_then_def)

lemma and_then_Inl [simp]: "and_then (Inl e) f = Inl e"
  by (simp add: and_then_def)

lemma and_then_cong_same:
  "(\<And>x. m = Inr x \<Longrightarrow> f x = g x) \<Longrightarrow> and_then m f = and_then m g"
  by (cases m) simp_all

lemma and_then_cong_rel:
  "rel_sum (=) R m1 m2 \<Longrightarrow> (\<And>x y. R x y \<Longrightarrow> f x = g y) \<Longrightarrow> and_then m1 f = and_then m2 g"
  by (cases m1; cases m2) simp_all

section \<open>Idempotence of masking\<close>

text \<open>
  C6. Masking an observation node twice leaves it exactly as masking it once does:
  the masked value and its mask are the same, and the fill value is 0 both times.
  On a node whose value is a masked array with fill value 0 already, masking changes
  nothing.
\<close>

theorem mask_idempotent:
  "mask (mask self) = mask self \<and>
   getmask (node_value (mask (mask self))) = getmask (node_value (mask self)) \<and>
   ma_fill (node_value (mask (mask self))) = Fin 0 \<and>
   ma_fill (node_value (mask self)) = Fin 0 \<and>
   mask (self\<lparr>node_value := MaskedArray A M (Fin 0)\<rparr>)
     = self\<lparr>node_value := MaskedArray A M (Fin 0)\<rparr>"
  by (cases "node_value self") (simp_all add: mask_def masked_invalid_def)

section \<open>Observed counts\<close>

lemma count_filter_upt: "int (length (filter P [0..<n])) = int (card {i. i < n \<and> P i})"
proof -
  have "set (filter P [0..<n]) = {i. i < n \<and> P i}" by auto
  moreover have "distinct (filter P [0..<n])" by simp
  ultimately show ?thesis by (metis distinct_card)
qed

lemma sum_axis0_nth:
  "j < ncols M \<Longrightarrow> sum_axis0 M ! j = missing_in_col M j"
  by (simp add: sum_axis0_def missing_in_col_def count_filter_upt)

lemma sum_axis1_nth:
  "i < nrows M \<Longrightarrow> sum_axis1 M ! i = missing_in_row M i"
  by (simp add: sum_axis1_def missing_in_row_def count_filter_upt)

lemma getMask_N_update: "getMask (self\<lparr>N := x\<rparr>) = getMask self"
  by (simp add: getMask_def split: option.splits)

lemma length_sum_axis [simp]:
  "length (sum_axis0 M) = ncols M" "length (sum_axis1 M) = nrows M"
  by (simp_all add: sum_axis0_def sum_axis1_def)

lemma getMask_example:
  "getMask Y_example = Arr 3 2 (\<lambda>i j. \<not> isfinite (if i = 0 \<and> j = 0 then NaN else Fin 1))"
  by (simp add: Y_example_def Y_Node_init_def mask_def getMask_def masked_invalid_def)

lemma precompute_example:
  "fst (precompute Y_example options_example False) = Inr () \<and>
   N (fst (snd (precompute Y_example options_example False))) = Some [2, 3] \<and>
   D (fst (snd (precompute Y_example options_example False))) = Some [1, 2, 2]"
  by (simp add: precompute_def Let_def getMask_N_update getMask_example sum_axis0_def
       sum_axis1_def options_example_def upt_3 upt_2)
     (simp add: Y_example_def Y_Node_init_def mask_def)

text \<open>
  C3, as the code has it. \<open>precompute\<close> sets \<open>N\<close> to \<open>dim[0] - mask.sum(axis=0)\<close>
  and \<open>D\<close> to \<open>dim[1] - mask.sum(axis=1)\<close>, so \<open>N\<close> has one entry per column
  (feature) and \<open>D\<close> one per row (sample): for every column \<open>j\<close>, \<open>N[j]\<close> plus the
  number of missing entries of column \<open>j\<close> is the sample count \<open>dim[0]\<close>, and for
  every row \<open>i\<close>, \<open>D[i]\<close> plus the number of missing entries of row \<open>i\<close> is the
  feature count \<open>dim[1]\<close>. Both are assigned before the options are read, so they
  hold whatever the outcome of the call.
\<close>

theorem precompute_observed_counts:
  "N (fst (snd (precompute self options g))) \<noteq> None \<and>
   D (fst (snd (precompute self options g))) \<noteq> None \<and>
   length (the (N (fst (snd (precompute self options g))))) = ncols (getMask self) \<and>
   length (the (D (fst (snd (precompute self options g))))) = nrows (getMask self) \<and>
   (\<forall>j < ncols (getMask self).
      the (N (fst (snd (precompute self options g)))) ! j + missing_in_col (getMask self) j
        = fst (dim self)) \<and>
   (\<forall>i < nrows (getMask self).
      the (D (fst (snd (precompute self options g)))) ! i + missing_in_row (getMask self) i
        = snd (dim self))"
  by (simp add: precompute_def Let_def getMask_N_update sum_axis0_nth sum_axis1_nth
        split: option.splits)

theorem precompute_observed_counts_witness:
  "missing_in_col (getMask Y_example) 0 = 1 \<and> missing_in_row (getMask Y_example) 0 = 1 \<and>
   missing_in_col (getMask Y_example) 1 = 0 \<and> missing_in_row (getMask Y_example) 2 = 0"
proof -
  have sh: "ncols (getMask Y_example) = 2" "nrows (getMask Y_example) = 3"
    by (simp_all add: getMask_example)
  have dm: "dim Y_example = (3, 2)"
    by (simp add: Y_example_def Y_Node_init_def mask_def)
  note t = precompute_observed_counts[of Y_example options_example False]
  from t sh have c: "\<And>j. j < 2 \<Longrightarrow>
      the (N (fst (snd (precompute Y_example options_example False)))) ! j
        + missing_in_col (getMask Y_example) j = fst (dim Y_example)"
    by simp
  from t sh have r: "\<And>i. i < 3 \<Longrightarrow>
      the (D (fst (snd (precompute Y_example options_example False)))) ! i
        + missing_in_row (getMask Y_example) i = snd (dim Y_example)"
    by simp
  from c[of 0] c[of 1] r[of 0] r[of 2] show ?thesis
    using precompute_example by (simp add: dm)
qed

text \<open>
  The specification pairs \<open>N\<close> with the rows and the feature count. On the example
  node (three samples, two features, the first entry missing) the call succeeds with
  \<open>N = [2, 3]\<close>; row 0 has one missing entry, and \<open>N[0] + 1 = 3\<close> is not the feature
  count 2.
\<close>

theorem precompute_rows_counterexample:
  "fst (precompute Y_example options_example False) = Inr () \<and>
   the (N (fst (snd (precompute Y_example options_example False)))) ! 0
     + missing_in_row (getMask Y_example) 0 \<noteq> snd (dim Y_example)"
  using precompute_example sum_axis1_nth[of 0 "getMask Y_example", symmetric]
  by (simp add: getMask_example sum_axis1_def upt_3 upt_2)
     (simp add: Y_example_def Y_Node_init_def mask_def)

section \<open>The value of the evidence lower bound\<close>

lemma residual_ok:
  assumes "shape Y = (n, d)" "shape Z = (n, k)" "shape ZZ = (n, k)"
          "shape W = (k, d)" "shape WW = (k, d)"
  shows "residual Y Z ZZ W WW =
     Inr (Arr n d (\<lambda>i j.
        entry Y i j * entry Y i j
        + np_sum (map (\<lambda>l. entry ZZ i l * entry WW l j) [0..<k])
        - np_sum (map (\<lambda>l. (entry Z i l * entry Z i l) * (entry W l j * entry W l j)) [0..<k])
        + np_sum (map (\<lambda>l. entry Z i l * entry W l j) [0..<k]) * np_sum (map (\<lambda>l. entry Z i l * entry W l j) [0..<k])
        - Fin 2 * np_sum (map (\<lambda>l. entry Z i l * entry W l j) [0..<k]) * entry Y i j))"
  using assms
  by (simp add: residual_def dot_def elementwise_def square_def scale_def shape_def)

text \<open>
  C1. For an observation node whose \<open>likconst\<close> has been precomputed and whose Markov
  blanket holds \<open>Z\<close>, \<open>W\<close> and \<open>Tau\<close> with their moments, of conforming shapes,
  \<open>calculateELBO\<close> returns exactly
  \<open>likconst + 0.5 * \<Sum> lnE - \<Sum> E * tmp\<close> with \<open>lnE\<close> and \<open>tmp\<close> zeroed at masked
  positions and \<open>tmp = Y\<^sup>2 + ZZ.WW - Z\<^sup>2.W\<^sup>2 + (Z.W)\<^sup>2 - 2 (Z.W) Y\<close>, \<open>W\<close> and \<open>WW\<close>
  being the transposed moments of the \<open>W\<close> node.
\<close>

theorem calculateELBO_formula:
  assumes "likconst self = Some c"
      and "node_value self = MaskedArray Y M fv"
      and "markov_blanket self ''Tau'' = Some Tau" "Tau ''lnE'' = Some lnE" "Tau ''E'' = Some E"
      and "markov_blanket self ''W'' = Some Wtmp" "Wtmp ''E'' = Some WE" "Wtmp ''E2'' = Some WE2"
      and "markov_blanket self ''Z'' = Some Ztmp" "Ztmp ''E'' = Some Z" "Ztmp ''E2'' = Some ZZ"
      and "shape Y = (n, d)" "shape M = (n, d)" "shape lnE = (n, d)" "shape E = (n, d)"
      and "shape Z = (n, k)" "shape ZZ = (n, k)" "shape WE = (d, k)" "shape WE2 = (d, k)"
  shows "calculateELBO self = Inr (elbo_formula c M Y Z ZZ WE WE2 lnE E)"
proof -
  have W: "shape (arr_T WE) = (k, d)" "shape (arr_T WE2) = (k, d)"
    using assms by (simp_all add: shape_def arr_T_def)
  have r: "residual Y Z ZZ (arr_T WE) (arr_T WE2) = Inr (Arr n d (\<lambda>i j.
        entry Y i j * entry Y i j
        + np_sum (map (\<lambda>l. entry ZZ i l * entry WE2 j l) [0..<k])
        - np_sum (map (\<lambda>l. (entry Z i l * entry Z i l) * (entry WE j l * entry WE j l)) [0..<k])
        + np_sum (map (\<lambda>l. entry Z i l * entry WE j l) [0..<k]) * np_sum (map (\<lambda>l. entry Z i l * entry WE j l) [0..<k])
        - Fin 2 * np_sum (map (\<lambda>l. entry Z i l * entry WE j l) [0..<k]) * entry Y i j))"
    using residual_ok[OF assms(12) assms(16) assms(17) W] by (simp add: arr_T_def)
  show ?thesis
    using assms
    by (simp add: calculateELBO_def getExpectation_def getitem_def r Let_def
          setitem_mask_def elementwise_def shape_def sum_all_def elbo_formula_def
          cong: if_cong)
qed

theorem calculateELBO_formula_witness:
  "calculateELBO elbo_example = Inr (Fin (- 3))"
proof -
  have "calculateELBO elbo_example =
      Inr (elbo_formula (Fin 7) (Arr 2 1 (\<lambda>i j. i = 1))
            (Arr 2 1 (\<lambda>i j. if i = 0 then Fin 2 else NaN))
            (Arr 2 1 (\<lambda>i j. Fin 1)) (Arr 2 1 (\<lambda>i j. Fin 2))
            (Arr 1 1 (\<lambda>i j. Fin 3)) (Arr 1 1 (\<lambda>i j. Fin 10))
            (Arr 2 1 (\<lambda>i j. if i = 0 then Fin 4 else Fin 5)) (Arr 2 1 (\<lambda>i j. Fin 1)))"
    by (rule calculateELBO_formula[where n = 2 and d = 1 and k = 1 and fv = "Fin 0"
          and Tau = Tau_example and Wtmp = W_example and Ztmp = Z_example])
       (simp_all add: elbo_example_def Tau_example_def W_example_def Z_example_def shape_def)
  then show ?thesis
    by (simp add: elbo_formula_def Let_def upt_2 upt_1 minus_npfloat_def)
qed

section \<open>Masked values do not influence the bound\<close>

lemma residual_agree:
  assumes "agree_off_mask M Y1 Y2"
  shows "rel_sum (=) (agree_off_mask M) (residual Y1 Z ZZ W WW) (residual Y2 Z ZZ W WW)"
  using assms
  by (auto simp: agree_off_mask_def residual_def dot_def elementwise_def square_def scale_def
        shape_def)

lemma sum_all_cong:
  assumes "shape A = shape B" "\<forall>i < nrows A. \<forall>j < ncols A. entry A i j = entry B i j"
  shows "sum_all A = sum_all B"
proof -
  have "map (\<lambda>i. map (\<lambda>j. entry A i j) [0..<ncols A]) [0..<nrows A]
      = map (\<lambda>i. map (\<lambda>j. entry B i j) [0..<ncols B]) [0..<nrows B]"
    using assms by (auto simp: shape_def)
  then show ?thesis by (simp add: sum_all_def)
qed

lemma masked_agree:
  assumes "agree_off_mask M T1 T2"
  shows "rel_sum (=)
           (\<lambda>A B. shape A = shape B \<and> (\<forall>i < nrows A. \<forall>j < ncols A. entry A i j = entry B i j))
           (setitem_mask T1 M v) (setitem_mask T2 M v)"
  using assms by (auto simp: agree_off_mask_def setitem_mask_def shape_def)

lemma product_sum_agree:
  assumes "shape A = shape B" "\<forall>i < nrows A. \<forall>j < ncols A. entry A i j = entry B i j"
  shows "rel_sum (=) (\<lambda>p q. sum_all p = sum_all q) (elementwise (*) E A) (elementwise (*) E B)"
proof (cases "shape E = shape A")
  case False
  with assms show ?thesis by (simp add: elementwise_def)
next
  case True
  with assms have "shape E = shape B" by simp
  moreover have "sum_all (Arr (nrows E) (ncols E) (\<lambda>i j. entry E i j * entry A i j))
      = sum_all (Arr (nrows E) (ncols E) (\<lambda>i j. entry E i j * entry B i j))"
    using assms True by (intro sum_all_cong) (auto simp: shape_def)
  ultimately show ?thesis using True by (simp add: elementwise_def)
qed

lemma masked_product_agree:
  assumes "agree_off_mask M T1 T2"
  shows "and_then (setitem_mask T1 M v) (\<lambda>t. and_then c (\<lambda>c. and_then e (\<lambda>E.
           and_then (elementwise (*) E t) (\<lambda>p. Inr (c + h - sum_all p)))))
       = and_then (setitem_mask T2 M v) (\<lambda>t. and_then c (\<lambda>c. and_then e (\<lambda>E.
           and_then (elementwise (*) E t) (\<lambda>p. Inr (c + h - sum_all p)))))"
proof (rule and_then_cong_rel[OF masked_agree[OF assms]], intro and_then_cong_same)
  fix A B :: "npfloat ndarray" and c' :: npfloat and E :: "npfloat ndarray"
  assume "shape A = shape B \<and> (\<forall>i < nrows A. \<forall>j < ncols A. entry A i j = entry B i j)"
  then have "rel_sum (=) (\<lambda>p q. sum_all p = sum_all q) (elementwise (*) E A) (elementwise (*) E B)"
    by (intro product_sum_agree) simp_all
  then show "and_then (elementwise (*) E A) (\<lambda>p. Inr (c' + h - sum_all p))
           = and_then (elementwise (*) E B) (\<lambda>p. Inr (c' + h - sum_all p))"
    by (rule and_then_cong_rel) simp
qed

text \<open>
  C2. Two observation nodes with the same mask, the same \<open>likconst\<close> and the same
  Markov blanket, whose observation matrices have one shape and agree at every
  unmasked position, get the same result from \<open>calculateELBO\<close> (the same value or the
  same error): what is stored at masked positions is never read.
\<close>

theorem calculateELBO_ignores_masked_values:
  assumes "node_value y1 = MaskedArray Y1 M f1"
      and "node_value y2 = MaskedArray Y2 M f2"
      and "shape Y1 = shape Y2"
      and "\<forall>i < nrows Y1. \<forall>j < ncols Y1. \<not> entry M i j \<longrightarrow> entry Y1 i j = entry Y2 i j"
      and "likconst y1 = likconst y2"
      and "markov_blanket y1 = markov_blanket y2"
  shows "calculateELBO y1 = calculateELBO y2"
proof -
  have a: "agree_off_mask M Y1 Y2"
    using assms(3,4) by (simp add: agree_off_mask_def)
  show ?thesis
    unfolding calculateELBO_def getExpectation_def Let_def assms(1,2,5,6) getdata.simps getmask.simps
    by (intro and_then_cong_same and_then_cong_rel[OF residual_agree[OF a]] masked_product_agree)
qed

theorem calculateELBO_ignores_masked_values_witness:
  "calculateELBO elbo_example
     = calculateELBO (elbo_example\<lparr>node_value :=
         MaskedArray (Arr 2 1 (\<lambda>i j. if i = 0 then Fin 2 else Fin 1000))
                     (Arr 2 1 (\<lambda>i j. i = 1)) (Fin 0)\<rparr>)
   \<and> entry (Arr 2 1 (\<lambda>i j. if i = 0 then Fin 2 else NaN)) 1 0
     \<noteq> entry (Arr 2 1 (\<lambda>i j. if i = 0 then Fin 2 else Fin 1000)) 1 0"
proof -
  have "calculateELBO elbo_example
     = calculateELBO (elbo_example\<lparr>node_value :=
         MaskedArray (Arr 2 1 (\<lambda>i j. if i = 0 then Fin 2 else Fin 1000))
                     (Arr 2 1 (\<lambda>i j. i = 1)) (Fin 0)\<rparr>)"
    by (rule calculateELBO_ignores_masked_values[where
          ?Y1.0 = "Arr 2 1 (\<lambda>i j. if i = 0 then Fin 2 else NaN)" and M = "Arr 2 1 (\<lambda>i j. i = 1)"
          and ?f1.0 = "Fin 0" and ?f2.0 = "Fin 0"
          and ?Y2.0 = "Arr 2 1 (\<lambda>i j. if i = 0 then Fin 2 else Fin 1000)"])
       (auto simp: elbo_example_def shape_def)
  then show ?thesis by simp
qed

section \<open>The serializer: construction and the selection of nodes\<close>

lemma init_example:
  "saveModel_init example_model ''model.hdf5'' [example_arrays 2] [''a'', ''b''] 0 [''view''] 9
     example_world = (Inr example_saver, example_opened)"
  by (simp add: saveModel_init_def example_model_def example_saver_def example_opened_def
        example_world_def example_arrays_def)

lemmas run_defs = saveExpectations_def bind_a_def pure_a_def requested_def restrict_nodes_def
  create_def save_node_def save_view_def save_view_group_def save_group_def nth_err_def
  read_array_def setitem_method_def take_rows_def samp_indices_def shape_def
  multigroup_nodes_def whitelist_def List.map_filter_def

lemmas example_defs = example_saver_def example_opened_def example_world_def example_model_def
  example_arrays_def

lemma saveModel_init_untrained:
  "\<not> trained mdl \<Longrightarrow>
   saveModel_init mdl outfile dat groups opts vnames level w = (Inl AssertionError, w)"
  by (simp add: saveModel_init_def)

lemma saveExpectations_names_checked:
  "\<not> set ns \<subseteq> set whitelist \<Longrightarrow>
   saveExpectations self (Names ns) w = (Inl AssertionError, w)"
  by (simp add: saveExpectations_def bind_a_def pure_a_def requested_def)

text \<open>
  C4. A name outside the whitelist makes the call fail only when it comes in a list
  or tuple. As a single string it is not checked: on the example, \<open>"Foo"\<close> (not
  registered) is skipped silently, the call returning with an empty \<open>expectations\<close>
  group, and \<open>"Sigma"\<close> (registered, not recognised) is exported under its name,
  while the list \<open>["Foo"]\<close> is refused.
\<close>

theorem saveExpectations_string_unchecked:
  "''Foo'' \<notin> set whitelist \<and> ''Sigma'' \<notin> set whitelist \<and>
   fst (saveExpectations example_saver (Str ''Foo'') example_opened) = Inr () \<and>
   files (snd (saveExpectations example_saver (Str ''Foo'') example_opened)) ''model.hdf5''
     = Some [[''expectations''] \<mapsto> H5Group] \<and>
   fst (saveExpectations example_saver (Str ''Sigma'') example_opened) = Inr () \<and>
   the (files (snd (saveExpectations example_saver (Str ''Sigma'') example_opened)) ''model.hdf5'')
     [''expectations'', ''Sigma'', ''E''] = Some (H5Matrix (arr_T (example_arrays 4)) 9) \<and>
   fst (saveExpectations example_saver (Names [''Foo'']) example_opened) = Inl AssertionError"
  by (simp add: run_defs example_defs)

text \<open>
  C5. An untrained model is refused before anything is written
  (\<open>saveModel_init_untrained\<close>). The length of the group labels is checked only after
  the container has been opened for writing: with one label for the two samples of
  the example, construction fails with the \<open>AssertionError\<close> and leaves a new, empty
  file behind.
\<close>

theorem saveModel_init_mismatch_leaves_file:
  "length [''a''] \<noteq> nrows (example_arrays 2) \<and>
   fst (saveModel_init example_model ''model.hdf5'' [example_arrays 2] [''a''] 0 [''view''] 9
          example_world) = Inl AssertionError \<and>
   files example_world ''model.hdf5'' = None \<and>
   files (snd (saveModel_init example_model ''model.hdf5'' [example_arrays 2] [''a''] 0
                 [''view''] 9 example_world)) ''model.hdf5'' = Some Map.empty"
  by (simp add: saveModel_init_def example_defs)

section \<open>The training options\<close>

subsection \<open>The flattened dictionary\<close>

lemma flat_items_Cons_Dict [simp]:
  "flat_items ((p, Dict kv) # rest) = map (\<lambda>(c, x). (flat_name p c, x)) kv @ flat_items rest"
  by (simp add: flat_items_def nested_entries_def case_prod_unfold comp_def)

lemma flat_items_Cons_Num [simp]:
  "flat_items ((p, Num y) # rest) = flat_items rest"
  "flat_items ((p, NonNumeric) # rest) = flat_items rest"
  "flat_items [] = []"
  by (simp_all add: flat_items_def nested_entries_def)

lemma parent_keys_simps [simp]:
  "parent_keys ((p, Dict kv) # rest) = p # parent_keys rest"
  "parent_keys ((p, Num y) # rest) = parent_keys rest"
  "parent_keys ((p, NonNumeric) # rest) = parent_keys rest"
  "parent_keys [] = []"
  by (simp_all add: parent_keys_def)

lemma flatten_entry_simps [simp]:
  "flatten_entry acc (p, Dict kv) =
     AList.delete p (foldl (\<lambda>acc (k1, v1). AList.update (flat_name p k1) v1 acc) acc kv)"
  "flatten_entry acc (p, Num y) = acc"
  "flatten_entry acc (p, NonNumeric) = acc"
  by (simp_all add: flatten_entry_def flat_name_def)

lemma keys_delete: "fst ` set (AList.delete k al) = fst ` set al - {k}"
  using delete_keys[of k al] by (metis list.set_map set_removeAll)

lemma keys_inner:
  "fst ` set (foldl (\<lambda>acc (k1, v1). AList.update (f k1) v1 acc) acc kv)
     = fst ` set acc \<union> fst ` set (map (\<lambda>(c, x). (f c, x)) kv)"
proof (induction kv arbitrary: acc)
  case Nil
  then show ?case by simp
next
  case (Cons e kv)
  obtain c v where e: "e = (c, v)" by (cases e)
  have "fst ` set (AList.update (f c) v acc) = insert (f c) (fst ` set acc)"
    by (simp add: dom_update)
  with Cons.IH[of "AList.update (f c) v acc"] show ?case
    by (simp add: e)
qed

lemma flat_name_neq_parent [simp]: "flat_name p c \<noteq> p" "p \<noteq> flat_name p c"
  by (simp_all add: flat_name_def)

lemma keys_flatten:
  assumes "set (map fst (flat_items items)) \<inter> set (parent_keys items) = {}"
  shows "fst ` set (foldl flatten_entry acc items)
           = (fst ` set acc \<union> fst ` set (flat_items items)) - set (parent_keys items)"
  using assms
proof (induction items arbitrary: acc)
  case Nil
  then show ?case by simp
next
  case (Cons it items)
  obtain p v where it: "it = (p, v)" by (cases it)
  show ?case
  proof (cases v)
    case (Dict kv)
    with Cons.prems it have "set (map fst (flat_items items)) \<inter> set (parent_keys items) = {}"
      and "p \<notin> fst ` set (flat_items items)"
      by auto
    with Cons.IH[of "flatten_entry acc it"] show ?thesis
      unfolding it Dict by (simp add: keys_delete keys_inner) blast
  qed (use Cons it in auto)
qed

lemma map_of_inner:
  assumes "distinct (map fst (map (\<lambda>(c, x). (f c, x)) kv))"
  shows "map_of (foldl (\<lambda>acc (k1, v1). AList.update (f k1) v1 acc) acc kv) x
     = (case map_of (map (\<lambda>(c, x). (f c, x)) kv) x of
          Some v \<Rightarrow> Some v | None \<Rightarrow> map_of acc x)"
  using assms
proof (induction kv arbitrary: acc)
  case Nil
  then show ?case by simp
next
  case (Cons e kv)
  obtain c v where e: "e = (c, v)" by (cases e)
  from Cons.prems e have n: "f c \<notin> fst ` set (map (\<lambda>(c, x). (f c, x)) kv)"
    and d: "distinct (map fst (map (\<lambda>(c, x). (f c, x)) kv))"
    by (simp_all add: image_image case_prod_unfold comp_def)
  from n have "map_of (map (\<lambda>(c, x). (f c, x)) kv) (f c) = None"
    by (simp add: map_of_eq_None_iff)
  with Cons.IH[OF d, of "AList.update (f c) v acc"] show ?case
    by (auto simp: e update_conv' split: option.splits)
qed

lemma map_of_flatten:
  assumes "distinct (map fst (flat_items items))"
      and "set (map fst (flat_items items)) \<inter> set (parent_keys items) = {}"
  shows "map_of (foldl flatten_entry acc items) x
     = (if x \<in> set (parent_keys items) then None
        else case map_of (flat_items items) x of Some v \<Rightarrow> Some v | None \<Rightarrow> map_of acc x)"
  using assms
proof (induction items arbitrary: acc)
  case Nil
  then show ?case by simp
next
  case (Cons it items)
  obtain p v where it: "it = (p, v)" by (cases it)
  show ?case
  proof (cases v)
    case (Dict kv)
    let ?fk = "map (\<lambda>(c, x). (flat_name p c, x)) kv"
    from Cons.prems(1) have d: "distinct (map fst ?fk)" "distinct (map fst (flat_items items))"
      and disj: "fst ` set ?fk \<inter> fst ` set (flat_items items) = {}"
      unfolding it Dict by (simp_all add: image_image)
    from Cons.prems(2) have np: "set (map fst (flat_items items)) \<inter> set (parent_keys items) = {}"
      and pk: "p \<notin> fst ` set (flat_items items)"
      unfolding it Dict by auto
    have acc': "map_of (flatten_entry acc it) x =
        (if x = p then None
         else case map_of ?fk x of Some v \<Rightarrow> Some v | None \<Rightarrow> map_of acc x)"
      unfolding it Dict by (simp add: delete_conv' map_of_inner[OF d(1)])
    have both: "map_of ?fk x = Some u \<Longrightarrow> map_of (flat_items items) x = None" for u
    proof -
      assume "map_of ?fk x = Some u"
      then have "(x, u) \<in> set ?fk" by (rule map_of_SomeD)
      then have "x \<in> fst ` set ?fk" by force
      with disj have "x \<notin> fst ` set (flat_items items)" by blast
      then show ?thesis by (simp add: map_of_eq_None_iff)
    qed
    have pnone: "map_of (flat_items items) p = None"
      using pk by (simp add: map_of_eq_None_iff)
    have split: "map_of (?fk @ flat_items items) x =
        (case map_of ?fk x of Some v \<Rightarrow> Some v | None \<Rightarrow> map_of (flat_items items) x)"
      by (simp add: map_add_def split: option.splits)
    have "map_of (foldl flatten_entry acc (it # items)) x =
        (if x \<in> set (parent_keys items) then None
         else case map_of (flat_items items) x of
                Some v \<Rightarrow> Some v | None \<Rightarrow> map_of (flatten_entry acc it) x)"
      using Cons.IH[OF d(2) np, of "flatten_entry acc it"] by simp
    also have "\<dots> = (if x \<in> set (parent_keys (it # items)) then None
        else case map_of (flat_items (it # items)) x of
               Some v \<Rightarrow> Some v | None \<Rightarrow> map_of acc x)"
      unfolding acc' unfolding it Dict flat_items_Cons_Dict split
      using both pnone by (auto split: option.splits)
    finally show ?thesis .
  next
    case (Num y)
    with Cons it show ?thesis by simp
  next
    case NonNumeric
    with Cons it show ?thesis by simp
  qed
qed

lemma distinct_inner:
  "distinct (map fst acc) \<Longrightarrow>
   distinct (map fst (foldl (\<lambda>acc (k1, v1). AList.update (f k1) v1 acc) acc kv))"
  by (induction kv arbitrary: acc) (auto simp: distinct_update)

lemma distinct_flatten:
  "distinct (map fst acc) \<Longrightarrow> distinct (map fst (foldl flatten_entry acc items))"
proof (induction items arbitrary: acc)
  case Nil
  then show ?case by simp
next
  case (Cons it items)
  obtain p v where it: "it = (p, v)" by (cases it)
  have "distinct (map fst (flatten_entry acc it))"
    unfolding it using Cons.prems by (cases v) (simp_all add: distinct_delete distinct_inner)
  with Cons.IH show ?case by simp
qed

lemma flatten_opts_eq:
  "flatten_opts opts =
     AList.delete ''convergence_mode'' (AList.delete ''schedule'' (foldl flatten_entry opts opts))"
  by (simp add: flatten_opts_def Let_def)

lemma set_delete_subset: "set (AList.delete k al) \<subseteq> set al"
  by (auto simp: AList.delete_eq)

lemma in_delete_iff: "(a, b) \<in> set (AList.delete k al) \<longleftrightarrow> (a, b) \<in> set al \<and> a \<noteq> k"
  by (auto simp: AList.delete_eq)

lemma to_floats_all_Num:
  assumes "\<forall>v \<in> set vs. \<exists>x. v = Num x"
  shows "\<exists>xs. to_floats vs = Inr xs \<and> length xs = length vs \<and> (\<forall>i < length vs. vs ! i = Num (xs ! i))"
  using assms
proof (induction vs)
  case Nil
  then show ?case by simp
next
  case (Cons v vs)
  then obtain x where x: "v = Num x" by auto
  from Cons obtain xs where xs: "to_floats vs = Inr xs" "length xs = length vs"
      "\<forall>i < length vs. vs ! i = Num (xs ! i)" by auto
  have "\<forall>i < length (v # vs). (v # vs) ! i = Num ((x # xs) ! i)"
    using xs(3) x by (auto simp: nth_Cons split: nat.splits)
  with xs x show ?case by simp
qed

lemma parent_keys_iff: "p \<in> set (parent_keys opts) \<longleftrightarrow> (\<exists>kv. (p, Dict kv) \<in> set opts)"
  by (auto simp: parent_keys_def split: optval.splits)

lemma flat_items_iff:
  "(n, v) \<in> set (flat_items opts) \<longleftrightarrow>
     (\<exists>p c. (p, c, v) \<in> set (nested_entries opts) \<and> n = flat_name p c)"
  by (force simp: flat_items_def)

lemma nested_entries_iff:
  "(p, c, v) \<in> set (nested_entries opts) \<longleftrightarrow> (\<exists>kv. (p, Dict kv) \<in> set opts \<and> (c, v) \<in> set kv)"
  by (auto simp: nested_entries_def split: optval.splits)

lemma flatten_values_numeric:
  assumes dk: "distinct (map fst opts)"
      and df: "distinct (map fst (flat_items opts))"
      and np: "set (map fst (flat_items opts)) \<inter> set (parent_keys opts) = {}"
      and num: "numeric_options opts"
      and kv: "(k, v) \<in> set (flatten_opts opts)"
  shows "\<exists>x. v = Num x"
proof -
  let ?G = "foldl flatten_entry opts opts"
  from kv have in0: "(k, v) \<in> set ?G" and ks: "k \<noteq> ''schedule''" "k \<noteq> ''convergence_mode''"
    by (auto simp: flatten_opts_eq in_delete_iff)
  have "distinct (map fst ?G)" using dk by (rule distinct_flatten)
  with in0 have m: "map_of ?G k = Some v" by simp
  from m have notp: "k \<notin> set (parent_keys opts)"
    using map_of_flatten[OF df np, of opts k] by (auto split: if_splits)
  show ?thesis
  proof (cases "map_of (flat_items opts) k")
    case (Some u)
    with m notp have "u = v" using map_of_flatten[OF df np, of opts k] by simp
    with Some have "(k, v) \<in> set (flat_items opts)" by (auto dest: map_of_SomeD)
    then obtain p c kv' where "(p, Dict kv') \<in> set opts" "(c, v) \<in> set kv'"
      by (auto simp: flat_items_iff nested_entries_iff)
    with num show ?thesis by (fastforce simp: numeric_options_def)
  next
    case None
    with m notp have "map_of opts k = Some v" using map_of_flatten[OF df np, of opts k] by simp
    then have i: "(k, v) \<in> set opts" by (rule map_of_SomeD)
    with notp have "\<nexists>kv'. v = Dict kv'" by (auto simp: parent_keys_iff)
    with i num ks show ?thesis by (fastforce simp: numeric_options_def)
  qed
qed

lemma saveTrainOptions_unfold:
  "saveTrainOptions self w =
     (case to_floats (map snd (flatten_opts (dicts w (train_opts self)))) of
        Inl e \<Rightarrow> (Inl e, w\<lparr>dicts := (dicts w)(train_opts self := flatten_opts (dicts w (train_opts self)))\<rparr>)
      | Inr vals \<Rightarrow>
          create (hdf5 self) [''training_opts'']
            (H5Table vals (map fst (flatten_opts (dicts w (train_opts self)))))
            (w\<lparr>dicts := (dicts w)(train_opts self := flatten_opts (dicts w (train_opts self)))\<rparr>))"
  by (simp add: saveTrainOptions_def Let_def bind_a_def pure_a_def split: sum.splits)

lemma create_dicts [simp]: "dicts (snd (create f p obj w)) = dicts w"
  by (simp add: create_def split: option.splits)

lemma saveTrainOptions_dicts:
  "dicts (snd (saveTrainOptions self w)) =
     (dicts w)(train_opts self := flatten_opts (dicts w (train_opts self)))"
  by (simp add: saveTrainOptions_unfold split: sum.splits)

lemma keys_flatten_opts:
  assumes "set (map fst (flat_items opts)) \<inter> set (parent_keys opts) = {}"
  shows "fst ` set (flatten_opts opts) =
     (fst ` set opts \<union> fst ` set (flat_items opts)) - set (parent_keys opts)
       - {''schedule'', ''convergence_mode''}"
  using keys_flatten[OF assms, of opts]
  by (simp add: flatten_opts_eq keys_delete) blast

lemma saveModel_init_train_opts:
  "fst (saveModel_init mdl outfile dat groups d vnames level w0) = Inr self \<Longrightarrow> train_opts self = d"
  by (auto simp: saveModel_init_def Let_def split: if_splits option.splits list.splits)

lemma create_fresh:
  "files w f = Some t \<Longrightarrow> t p = None \<Longrightarrow>
   create f p obj w = (Inr (), w\<lparr>files := (files w)(f \<mapsto> t(p \<mapsto> obj))\<rparr>)"
  by (simp add: create_def)

lemmas opts_defs = saveTrainOptions_def flatten_opts_def flatten_entry_def bind_a_def pure_a_def
  create_def options_world_def and_then_def

subsection \<open>The persisted table\<close>

text \<open>
  C8, as the code has it. Take a dictionary (each key once) whose flattened names
  \<open>parent_child\<close> are pairwise distinct and are neither the key of a nested
  dictionary nor \<open>schedule\<close> nor \<open>convergence_mode\<close>, and whose values are numbers
  or dictionaries of numbers, \<open>schedule\<close> and \<open>convergence_mode\<close> apart; the container
  is open and holds no \<open>training_opts\<close> yet. Then \<open>saveTrainOptions\<close> returns without
  an error and persists a numeric table with one value per name, each name once, in
  which every nested entry \<open>{parent: {child: v}}\<close> is the entry \<open>parent_child\<close> with
  value \<open>v\<close>, no parent key is a name, and \<open>schedule\<close> and \<open>convergence_mode\<close> are
  not names.
\<close>

theorem saveTrainOptions_table:
  assumes "distinct (map fst (dicts w (train_opts self)))"
      and "distinct (map fst (flat_items (dicts w (train_opts self))))"
      and "set (map fst (flat_items (dicts w (train_opts self))))
             \<inter> (set (parent_keys (dicts w (train_opts self))) \<union> {''schedule'', ''convergence_mode''}) = {}"
      and "numeric_options (dicts w (train_opts self))"
      and "files w (hdf5 self) = Some t" and "t [''training_opts''] = None"
  shows "fst (saveTrainOptions self w) = Inr () \<and>
    (\<exists>vals names.
       the (files (snd (saveTrainOptions self w)) (hdf5 self)) [''training_opts'']
         = Some (H5Table vals names) \<and>
       length vals = length names \<and> distinct names \<and>
       (\<forall>(p, c, v) \<in> set (nested_entries (dicts w (train_opts self))).
          \<exists>i < length names. names ! i = flat_name p c \<and> Num (vals ! i) = v) \<and>
       (\<forall>p \<in> set (parent_keys (dicts w (train_opts self))). p \<notin> set names) \<and>
       ''schedule'' \<notin> set names \<and> ''convergence_mode'' \<notin> set names)"
proof -
  let ?opts = "dicts w (train_opts self)"
  let ?G = "foldl flatten_entry ?opts ?opts"
  let ?F = "flatten_opts ?opts"
  let ?w1 = "w\<lparr>dicts := (dicts w)(train_opts self := ?F)\<rparr>"
  from assms(3) have np: "set (map fst (flat_items ?opts)) \<inter> set (parent_keys ?opts) = {}"
    by blast
  have a3: "fst ` set (flat_items ?opts)
      \<inter> (set (parent_keys ?opts) \<union> {''schedule'', ''convergence_mode''}) = {}"
    using assms(3) by simp
  have "\<forall>v \<in> set (map snd ?F). \<exists>x. v = Num x"
    using flatten_values_numeric[OF assms(1) assms(2) np assms(4)] by auto
  then obtain vals where vals: "to_floats (map snd ?F) = Inr vals" "length vals = length ?F"
      "\<forall>i < length ?F. snd (?F ! i) = Num (vals ! i)"
    using to_floats_all_Num[of "map snd ?F"] by auto
  have run: "saveTrainOptions self w =
      (Inr (), ?w1\<lparr>files := (files w)(hdf5 self \<mapsto> t([''training_opts''] \<mapsto> H5Table vals (map fst ?F)))\<rparr>)"
    using assms(5,6) by (simp add: saveTrainOptions_unfold vals(1) create_fresh)
  have dF0: "distinct (map fst ?G)" using assms(1) by (rule distinct_flatten)
  then have dF: "distinct (map fst ?F)"
    by (simp add: flatten_opts_eq distinct_delete)
  have keys: "fst ` set ?F = (fst ` set ?opts \<union> fst ` set (flat_items ?opts)) - set (parent_keys ?opts)
       - {''schedule'', ''convergence_mode''}"
    by (rule keys_flatten_opts[OF np])
  have entry: "\<exists>i < length ?F. map fst ?F ! i = flat_name p c \<and> Num (vals ! i) = v"
    if "(p, c, v) \<in> set (nested_entries ?opts)" for p c v
  proof -
    from that have fi: "(flat_name p c, v) \<in> set (flat_items ?opts)"
      by (auto simp: flat_items_iff)
    then have "map_of (flat_items ?opts) (flat_name p c) = Some v"
      using assms(2) by simp
    moreover from fi have f: "flat_name p c \<in> fst ` set (flat_items ?opts)" by force
    with a3 have nk: "flat_name p c \<notin> set (parent_keys ?opts)"
      "flat_name p c \<noteq> ''schedule''" "flat_name p c \<noteq> ''convergence_mode''"
      by blast+
    ultimately have "map_of ?G (flat_name p c) = Some v"
      using map_of_flatten[OF assms(2) np, of ?opts "flat_name p c"] by simp
    then have "(flat_name p c, v) \<in> set ?G" by (rule map_of_SomeD)
    with nk have "(flat_name p c, v) \<in> set ?F"
      by (simp add: flatten_opts_eq in_delete_iff)
    then obtain i where i: "i < length ?F" "?F ! i = (flat_name p c, v)"
      by (auto simp: in_set_conv_nth)
    with vals(3) have "Num (vals ! i) = v" by (metis snd_conv)
    with i show ?thesis by auto
  qed
  have names: "set (map fst ?F) = fst ` set ?F" by simp
  from run have r1: "fst (saveTrainOptions self w) = Inr ()" by simp
  from run have r2: "the (files (snd (saveTrainOptions self w)) (hdf5 self)) [''training_opts'']
      = Some (H5Table vals (map fst ?F))" by simp
  have e1: "length vals = length (map fst ?F)" using vals(2) by simp
  from entry have e3: "\<forall>(p, c, v) \<in> set (nested_entries ?opts).
      \<exists>i < length (map fst ?F). map fst ?F ! i = flat_name p c \<and> Num (vals ! i) = v"
  proof (intro ballI)
    fix x assume x: "x \<in> set (nested_entries ?opts)"
    obtain p c v where "x = (p, c, v)" by (cases x)
    with x entry[of p c v]
    show "case x of (p, c, v) \<Rightarrow>
        \<exists>i < length (map fst ?F). map fst ?F ! i = flat_name p c \<and> Num (vals ! i) = v"
      by simp
  qed
  have e4: "\<forall>p \<in> set (parent_keys ?opts). p \<notin> set (map fst ?F)"
    and e5: "''schedule'' \<notin> set (map fst ?F)"
    and e6: "''convergence_mode'' \<notin> set (map fst ?F)"
    unfolding names keys by blast+
  have "the (files (snd (saveTrainOptions self w)) (hdf5 self)) [''training_opts'']
         = Some (H5Table vals (map fst ?F)) \<and>
       length vals = length (map fst ?F) \<and> distinct (map fst ?F) \<and>
       (\<forall>(p, c, v) \<in> set (nested_entries ?opts).
          \<exists>i < length (map fst ?F). map fst ?F ! i = flat_name p c \<and> Num (vals ! i) = v) \<and>
       (\<forall>p \<in> set (parent_keys ?opts). p \<notin> set (map fst ?F)) \<and>
       ''schedule'' \<notin> set (map fst ?F) \<and> ''convergence_mode'' \<notin> set (map fst ?F)"
    using r2 e1 dF e3 e4 e5 e6 by (intro conjI)
  then have "\<exists>vals names.
       the (files (snd (saveTrainOptions self w)) (hdf5 self)) [''training_opts'']
         = Some (H5Table vals names) \<and>
       length vals = length names \<and> distinct names \<and>
       (\<forall>(p, c, v) \<in> set (nested_entries ?opts).
          \<exists>i < length names. names ! i = flat_name p c \<and> Num (vals ! i) = v) \<and>
       (\<forall>p \<in> set (parent_keys ?opts). p \<notin> set names) \<and>
       ''schedule'' \<notin> set names \<and> ''convergence_mode'' \<notin> set names"
    by (intro exI[of _ vals] exI[of _ "map fst ?F"])
  with r1 show ?thesis by (rule conjI)
qed

theorem saveTrainOptions_table_witness:
  "fst (saveTrainOptions example_saver (options_world train_opts_example)) = Inr () \<and>
   the (files (snd (saveTrainOptions example_saver (options_world train_opts_example)))
          ''model.hdf5'') [''training_opts'']
     = Some (H5Table [Fin 100, Fin 50, Fin 0.1] [''maxiter'', ''stochastic_batch_size'', ''stochastic_lr''])"
proof -
  have "fst (saveTrainOptions example_saver (options_world train_opts_example)) = Inr ()"
    using saveTrainOptions_table[of "options_world train_opts_example" example_saver Map.empty]
    by (simp add: options_world_def train_opts_example_def example_defs flat_items_def
        nested_entries_def parent_keys_def flat_name_def numeric_options_def)
  moreover have "the (files (snd (saveTrainOptions example_saver (options_world train_opts_example)))
          ''model.hdf5'') [''training_opts'']
     = Some (H5Table [Fin 100, Fin 50, Fin 0.1] [''maxiter'', ''stochastic_batch_size'', ''stochastic_lr''])"
    by (simp add: opts_defs train_opts_example_def example_defs)
  ultimately show ?thesis by simp
qed

text \<open>
  Without the condition on the names this fails: the nested entry
  \<open>{"convergence": {"mode": 3}}\<close> is flattened to \<open>convergence_mode\<close> and then deleted
  with the string options, so the call succeeds and the persisted table is empty.
\<close>

theorem saveTrainOptions_table_counterexample:
  "(''convergence'', ''mode'', Num (Fin 3)) \<in> set (nested_entries colliding_opts_example) \<and>
   fst (saveTrainOptions example_saver (options_world colliding_opts_example)) = Inr () \<and>
   the (files (snd (saveTrainOptions example_saver (options_world colliding_opts_example)))
          ''model.hdf5'') [''training_opts''] = Some (H5Table [] [])"
  by (simp add: opts_defs colliding_opts_example_def example_defs nested_entries_def)

subsection \<open>The caller's dictionary\<close>

text \<open>
  C10, as the code has it. \<open>saveTrainOptions\<close> works on the dictionary object the
  constructor was given: if no flattened name \<open>parent_child\<close> is the key of a nested
  dictionary, or \<open>schedule\<close> or \<open>convergence_mode\<close>, then after the call (whatever
  its outcome) that object holds no key of a nested dictionary, neither \<open>schedule\<close>
  nor \<open>convergence_mode\<close>, and every flattened key.
\<close>

theorem saveTrainOptions_flattens_in_place:
  assumes "fst (saveModel_init mdl outfile dat groups d vnames level w0) = Inr self"
      and "set (map fst (flat_items (dicts w d)))
             \<inter> (set (parent_keys (dicts w d)) \<union> {''schedule'', ''convergence_mode''}) = {}"
  shows "train_opts self = d \<and>
         (\<forall>p \<in> set (parent_keys (dicts w d)). p \<notin> fst ` set (dicts (snd (saveTrainOptions self w)) d)) \<and>
         ''schedule'' \<notin> fst ` set (dicts (snd (saveTrainOptions self w)) d) \<and>
         ''convergence_mode'' \<notin> fst ` set (dicts (snd (saveTrainOptions self w)) d) \<and>
         (\<forall>(p, c, v) \<in> set (nested_entries (dicts w d)).
            flat_name p c \<in> fst ` set (dicts (snd (saveTrainOptions self w)) d))"
proof -
  have d: "train_opts self = d" using assms(1) by (rule saveModel_init_train_opts)
  from assms(2) have np: "set (map fst (flat_items (dicts w d))) \<inter> set (parent_keys (dicts w d)) = {}"
    by blast
  have k: "fst ` set (dicts (snd (saveTrainOptions self w)) d) =
      (fst ` set (dicts w d) \<union> fst ` set (flat_items (dicts w d))) - set (parent_keys (dicts w d))
        - {''schedule'', ''convergence_mode''}"
    by (simp add: saveTrainOptions_dicts d keys_flatten_opts[OF np])
  have n: "flat_name p c \<in> fst ` set (dicts (snd (saveTrainOptions self w)) d)"
    if "(p, c, v) \<in> set (nested_entries (dicts w d))" for p c v
  proof -
    from that have "(flat_name p c, v) \<in> set (flat_items (dicts w d))"
      by (auto simp: flat_items_iff)
    then have f: "flat_name p c \<in> fst ` set (flat_items (dicts w d))" by force
    have a2: "fst ` set (flat_items (dicts w d))
        \<inter> (set (parent_keys (dicts w d)) \<union> {''schedule'', ''convergence_mode''}) = {}"
      using assms(2) by simp
    from f a2 show ?thesis unfolding k by blast
  qed
  have p: "\<forall>p \<in> set (parent_keys (dicts w d)). p \<notin> fst ` set (dicts (snd (saveTrainOptions self w)) d)"
    and s: "''schedule'' \<notin> fst ` set (dicts (snd (saveTrainOptions self w)) d)"
    and c: "''convergence_mode'' \<notin> fst ` set (dicts (snd (saveTrainOptions self w)) d)"
    unfolding k by blast+
  from n have "\<forall>(p, c, v) \<in> set (nested_entries (dicts w d)).
      flat_name p c \<in> fst ` set (dicts (snd (saveTrainOptions self w)) d)"
    by (metis (mono_tags, lifting) case_prodI2)
  with d p s c show ?thesis by (intro conjI)
qed

theorem saveTrainOptions_flattens_in_place_witness:
  "dicts (snd (saveTrainOptions example_saver (options_world train_opts_example))) 0
     = [(''maxiter'', Num (Fin 100)), (''stochastic_batch_size'', Num (Fin 50)),
        (''stochastic_lr'', Num (Fin 0.1))] \<and>
   ''stochastic_lr'' \<in> fst ` set (dicts (snd (saveTrainOptions example_saver
       (options_world train_opts_example))) 0) \<and>
   ''stochastic'' \<notin> fst ` set (dicts (snd (saveTrainOptions example_saver
       (options_world train_opts_example))) 0)"
proof -
  have i: "fst (saveModel_init example_model ''model.hdf5'' [example_arrays 2] [''a'', ''b''] 0
      [''view''] 9 example_world) = Inr example_saver"
    by (simp add: init_example)
  have n: "(''stochastic'', ''lr'', Num (Fin 0.1)) \<in> set (nested_entries (dicts (options_world train_opts_example) 0))"
    and p: "''stochastic'' \<in> set (parent_keys (dicts (options_world train_opts_example) 0))"
    by (simp_all add: options_world_def train_opts_example_def nested_entries_def parent_keys_def)
  have h: "set (map fst (flat_items (dicts (options_world train_opts_example) 0)))
      \<inter> (set (parent_keys (dicts (options_world train_opts_example) 0))
           \<union> {''schedule'', ''convergence_mode''}) = {}"
    by (simp add: options_world_def train_opts_example_def flat_items_def nested_entries_def
        parent_keys_def flat_name_def)
  note t = saveTrainOptions_flattens_in_place[OF i h]
  from t n have "flat_name ''stochastic'' ''lr'' \<in> fst ` set (dicts (snd (saveTrainOptions example_saver
       (options_world train_opts_example))) 0)" by blast
  moreover from t p have "''stochastic'' \<notin> fst ` set (dicts (snd (saveTrainOptions example_saver
       (options_world train_opts_example))) 0)" by blast
  moreover have "dicts (snd (saveTrainOptions example_saver (options_world train_opts_example))) 0
     = [(''maxiter'', Num (Fin 100)), (''stochastic_batch_size'', Num (Fin 50)),
        (''stochastic_lr'', Num (Fin 0.1))]"
    by (simp add: opts_defs train_opts_example_def example_defs)
  ultimately show ?thesis by (simp add: flat_name_def)
qed

text \<open>
  Without the condition this fails: in \<open>{"a_b": {"c": 1}, "a": {"b": 5}}\<close> the
  key \<open>a_b\<close> holds a nested dictionary, and after the call the caller's dictionary is
  \<open>{"a_b_c": 1, "a_b": 5}\<close>: the key \<open>a_b\<close> is there again, as the flattened name of
  the second entry.
\<close>

theorem saveTrainOptions_flattens_in_place_counterexample:
  "train_opts example_saver = 0 \<and>
   ''a_b'' \<in> set (parent_keys reappearing_parent_example) \<and>
   dicts (snd (saveTrainOptions example_saver (options_world reappearing_parent_example))) 0
     = [(''a_b_c'', Num (Fin 1)), (''a_b'', Num (Fin 5))]"
  by (simp add: opts_defs reappearing_parent_example_def example_defs)

section \<open>The expectations\<close>

subsection \<open>What a call leaves unchanged, and what it has run through\<close>

lemma evolves_refl [simp]: "evolves w w"
  by (simp add: evolves_def)

lemma evolves_trans: "evolves w1 w2 \<Longrightarrow> evolves w2 w3 \<Longrightarrow> evolves w1 w3"
  unfolding evolves_def by (auto intro: map_le_trans) (meson map_le_trans)



lemma preserves_pure [simp]: "preserves (pure_a r)"
  by (simp add: preserves_def pure_a_def)

lemma preserves_read [simp]: "preserves (read_array a)"
  by (simp add: preserves_def read_array_def)

lemma preserves_setitem_method [simp]: "preserves (setitem_method a f v)"
  by (simp add: preserves_def setitem_method_def)

lemma preserves_create [simp]: "preserves (create f p obj)"
  by (auto simp: preserves_def create_def evolves_def map_le_def split: option.splits)

lemma preserves_bind:
  assumes "preserves m" and "\<And>x. returns m x \<Longrightarrow> preserves (k x)"
  shows "preserves (bind_a m k)"
  unfolding preserves_def
proof
  fix w
  show "evolves w (snd (bind_a m k w))"
  proof (cases "m w")
    case (Pair r w1)
    from assms(1) Pair have e1: "evolves w w1" by (metis preserves_def snd_conv)
    show ?thesis
    proof (cases r)
      case (Inl e)
      with Pair e1 show ?thesis by (simp add: bind_a_def)
    next
      case (Inr x)
      with Pair have "returns m x" by (auto simp: returns_def)
      then have "evolves w1 (snd (k x w1))" using assms(2) by (simp add: preserves_def)
      with e1 Pair Inr show ?thesis by (auto simp: bind_a_def intro: evolves_trans)
    qed
  qed
qed

lemma preserves_foreach:
  "(\<And>x. x \<in> set xs \<Longrightarrow> preserves (f x)) \<Longrightarrow> preserves (foreach xs f)"
  by (induction xs) (auto intro: preserves_bind)

lemma bind_success:
  assumes "fst (bind_a m k w) = Inr y"
  obtains x where "m w = (Inr x, snd (m w))" "fst (k x (snd (m w))) = Inr y"
    "snd (bind_a m k w) = snd (k x (snd (m w)))"
  using assms by (cases "m w"; cases "fst (m w)") (auto simp: bind_a_def)

lemma foreach_visits:
  assumes "fst (foreach xs f w) = Inr ()" and "x \<in> set xs"
      and "\<And>y. y \<in> set xs \<Longrightarrow> preserves (f y)"
  shows "\<exists>w1. evolves w w1 \<and> fst (f x w1) = Inr () \<and>
              evolves (snd (f x w1)) (snd (foreach xs f w))"
  using assms
proof (induction xs arbitrary: w)
  case Nil
  then show ?case by simp
next
  case (Cons y ys)
  from Cons.prems(1) obtain u where u: "f y w = (Inr u, snd (f y w))"
      "fst (foreach ys f (snd (f y w))) = Inr ()"
      "snd (foreach (y # ys) f w) = snd (foreach ys f (snd (f y w)))"
    by (auto elim: bind_success)
  have py: "preserves (f y)" using Cons.prems(3) by simp
  have pys: "preserves (foreach ys f)" using Cons.prems(3) by (intro preserves_foreach) simp
  show ?case
  proof (cases "x = y")
    case True
    have "evolves (snd (f y w)) (snd (foreach ys f (snd (f y w))))"
      using pys by (simp add: preserves_def)
    with u True show ?thesis
      by (intro exI[of _ w]) (simp add: prod_eq_iff)
  next
    case False
    with Cons.prems(2) have "x \<in> set ys" by simp
    from Cons.IH[OF u(2) this] Cons.prems(3) obtain w1 where
      w1: "evolves (snd (f y w)) w1" "fst (f x w1) = Inr ()"
          "evolves (snd (f x w1)) (snd (foreach ys f (snd (f y w))))"
      by auto
    have "evolves w (snd (f y w))" using py by (simp add: preserves_def)
    with w1 u(3) show ?thesis by (auto intro: evolves_trans)
  qed
qed

lemma nth_err_Inr [simp]: "nth_err xs i = Inr x \<longleftrightarrow> i < length xs \<and> x = xs ! i"
  by (auto simp: nth_err_def)

lemma preserves_save_view_group: "preserves (save_view_group self n vname exps m g)"
  unfolding save_view_group_def
  by (intro preserves_bind preserves_pure preserves_read preserves_create
        preserves_setitem_method)

lemma preserves_save_view: "preserves (save_view self n exps m)"
  unfolding save_view_def
  by (auto intro!: preserves_bind preserves_foreach preserves_save_view_group)

lemma preserves_save_group: "preserves (save_group self n a g)"
  unfolding save_group_def
  by (intro preserves_bind preserves_pure preserves_create preserves_read)

lemma preserves_save_node: "preserves (save_node self x)"
proof (cases x)
  case (Pair n nd)
  show ?thesis
    unfolding Pair save_node_def
    by (cases nd)
       (auto intro!: preserves_bind preserves_foreach preserves_save_group preserves_save_view)
qed



lemma save_view_group_raises:
  "fst (save_view_group self n vname exps m g w) = Inl IndexError"
  by (simp add: save_view_group_def bind_a_def pure_a_def nth_err_def setitem_method_def)





lemma evolves_create: "evolves w (snd (create f p obj w))"
  using preserves_create[of f p obj] by (simp add: preserves_def)

lemma visit_view:
  assumes "fst (save_node self (n, Multiview_Node M exps) w) = Inr ()" and "m < M"
  shows "\<exists>w1. evolves w w1 \<and> fst (save_view self n exps m w1) = Inr () \<and>
      evolves (snd (save_view self n exps m w1)) (snd (save_node self (n, Multiview_Node M exps) w))"
proof -
  let ?c = "create (hdf5 self) [''expectations'', n] H5Group"
  from assms(1) have ok: "fst (foreach [0..<M] (save_view self n exps) (snd (?c w))) = Inr ()"
    and fin: "snd (save_node self (n, Multiview_Node M exps) w)
        = snd (foreach [0..<M] (save_view self n exps) (snd (?c w)))"
    by (auto simp: save_node_def elim!: bind_success)
  from assms(2) have "m \<in> set [0..<M]" by simp
  from foreach_visits[OF ok this preserves_save_view] obtain w1 where
    "evolves (snd (?c w)) w1" "fst (save_view self n exps m w1) = Inr ()"
    "evolves (snd (save_view self n exps m w1)) (snd (foreach [0..<M] (save_view self n exps) (snd (?c w))))"
    by blast
  with evolves_create[of w "hdf5 self" "[''expectations'', n]" H5Group]
  show ?thesis unfolding fin by (blast intro: evolves_trans)
qed

lemma visit_view_group:
  assumes "fst (save_view self n exps m w) = Inr ()" and "n \<in> set multigroup_nodes"
      and "g \<in> set (groups_names self)"
  shows "\<exists>w1. fst (save_view_group self n (views_names self ! m) exps m g w1) = Inr ()"
proof -
  let ?v = "views_names self ! m"
  let ?c = "create (hdf5 self) [''expectations'', n, ?v] H5Group"
  from assms(1,2) have
    ok: "fst (foreach (groups_names self) (save_view_group self n ?v exps m) (snd (?c w))) = Inr ()"
    by (auto simp: save_view_def pure_a_def nth_err_def elim!: bind_success split: if_splits)
  from foreach_visits[OF ok assms(3) preserves_save_view_group] show ?thesis by blast
qed


lemma restrict_nodes_iff:
  "(n, nd) \<in> set (restrict_nodes reg ns) \<longleftrightarrow> n \<in> set ns \<and> map_of reg n = Some nd"
  by (force simp: restrict_nodes_def List.map_filter_def)

lemma visit_node:
  assumes "fst (saveExpectations self arg w) = Inr ()"
      and "requested (nodes (model self)) arg = Inr ns"
      and "n \<in> set ns" and "map_of (nodes (model self)) n = Some nd"
  shows "\<exists>w1. evolves w w1 \<and> fst (save_node self (n, nd) w1) = Inr () \<and>
       evolves (snd (save_node self (n, nd) w1)) (snd (saveExpectations self arg w))"
proof -
  let ?c = "create (hdf5 self) [''expectations''] H5Group"
  let ?xs = "restrict_nodes (nodes (model self)) ns"
  from assms(1,2) have ok: "fst (foreach ?xs (save_node self) (snd (?c w))) = Inr ()"
    and fin: "snd (saveExpectations self arg w) = snd (foreach ?xs (save_node self) (snd (?c w)))"
    by (auto simp: saveExpectations_def pure_a_def elim!: bind_success)
  have "(n, nd) \<in> set ?xs" using assms(3,4) by (simp add: restrict_nodes_iff)
  from foreach_visits[OF ok this preserves_save_node] obtain w1 where
    "evolves (snd (?c w)) w1" "fst (save_node self (n, nd) w1) = Inr ()"
    "evolves (snd (save_node self (n, nd) w1)) (snd (foreach ?xs (save_node self) (snd (?c w))))"
    by blast
  with evolves_create[of w "hdf5 self" "[''expectations'']" H5Group]
  show ?thesis unfolding fin by (blast intro: evolves_trans)
qed

text \<open>A requested multi-view, multi-group node with a view and a group: the call raises.\<close>

lemma saveExpectations_multigroup_view_raises:
  assumes "requested (nodes (model self)) arg = Inr ns"
      and "n \<in> set ns" and "map_of (nodes (model self)) n = Some (Multiview_Node M exps)"
      and "n \<in> set multigroup_nodes" and "0 < M" and "groups_names self \<noteq> []"
  shows "fst (saveExpectations self arg w) \<noteq> Inr ()"
proof
  assume ok: "fst (saveExpectations self arg w) = Inr ()"
  from visit_node[OF ok assms(1-3)] obtain w1 where
    "fst (save_node self (n, Multiview_Node M exps) w1) = Inr ()" by blast
  from visit_view[OF this assms(5)] obtain w2 where
    "fst (save_view self n exps 0 w2) = Inr ()" by blast
  moreover from assms(6) have "hd (groups_names self) \<in> set (groups_names self)" by simp
  ultimately obtain w3 where
    "fst (save_view_group self n (views_names self ! 0) exps 0 (hd (groups_names self)) w3) = Inr ()"
    using visit_view_group[OF _ assms(4)] by blast
  then show False by (simp add: save_view_group_raises)
qed




subsection \<open>Orientation of the persisted datasets\<close>




subsection \<open>Masked positions are not overwritten\<close>

text \<open>
  C9. The innermost loop is written to overwrite the masked positions of the \<open>Y\<close> and
  \<open>Tau\<close> matrices with \<open>nan\<close>, in place. It does not: \<open>self.mask[m]\<close> is a bound
  method, the assignment raises an \<open>IndexError\<close> and no matrix is touched
  (\<open>saveExpectations_keeps_arrays\<close>, \<open>saveExpectations_multigroup_view_raises\<close>). On
  the example, position \<open>(0, 1)\<close> of the view is masked and \<open>Tau\<close> holds 1 there; the
  call for \<open>Tau\<close> raises and \<open>Tau\<close> still holds 1, and so does the default call for all
  nodes, which leaves every matrix as it was.
\<close>

theorem saveExpectations_fill_raises:
  "map_of (nodes (model example_saver)) ''Tau'' = Some (Multiview_Node 1 [3]) \<and>
   entry (getMask (Y_views (model example_saver) ! 0)) 0 1 \<and>
   entry (arrays example_opened 3) 0 1 = Fin 1 \<and>
   fst (saveExpectations example_saver (Str ''Tau'') example_opened) = Inl IndexError \<and>
   entry (arrays (snd (saveExpectations example_saver (Str ''Tau'') example_opened)) 3) 0 1 = Fin 1 \<and>
   fst (saveExpectations example_saver (Str ''all'') example_opened) = Inl IndexError \<and>
   arrays (snd (saveExpectations example_saver (Str ''all'') example_opened)) = arrays example_opened"
  by (simp add: run_defs example_defs upt_1 upt_2 Y_Node_init_def mask_def masked_invalid_def
        getMask_def)

end
